theory Spec2Isabelle
  imports Main
begin

section \<open>JavaScript values, as far as the deployment task reads them\<close>

text \<open>
  The settings document is whatever \<^verbatim>\<open>JSON.parse\<close> returns: the TypeScript annotation
  \<^verbatim>\<open>const settings: Settings = JSON.parse(...)\<close> is not checked at run time, so a field
  can be missing. Values are therefore modelled untyped. An object is a map from keys to
  values (a JSON object is an unordered set of members). Numbers are never inspected by
  the task, only passed on; they are carried as integers.
\<close>

datatype jsval =
    JUndefined
  | JNull
  | JBool bool
  | JNum int
  | JStr string
  | JArr "jsval list"
  | JObj "string \<Rightarrow> jsval option"

datatype error =
    Error string
  | TypeError string
  | IOError string

text \<open>
  \<^verbatim>\<open>n.toString()\<close> of an integral number: its decimal digits, with a leading minus sign
  for a negative one.
\<close>

definition digit_char :: "nat \<Rightarrow> char" where
  "digit_char d = ''0123456789'' ! d"

fun digits :: "nat \<Rightarrow> string" where
  "digits n = (if n < 10 then [digit_char n] else digits (n div 10) @ [digit_char (n mod 10)])"

declare digits.simps [simp del]

definition toString :: "int \<Rightarrow> string" where
  "toString n = (if n < 0 then CHR ''-'' # digits (nat (- n)) else digits (nat n))"

text \<open>
  \<^verbatim>\<open>s.toLowerCase()\<close>. Addresses are ASCII strings, on which lower-casing maps
  \<^verbatim>\<open>A\<close>..\<^verbatim>\<open>Z\<close> to \<^verbatim>\<open>a\<close>..\<^verbatim>\<open>z\<close> and leaves every other character alone.
\<close>

definition lower_char :: "char \<Rightarrow> char" where
  "lower_char c =
     (case map_of (zip ''ABCDEFGHIJKLMNOPQRSTUVWXYZ'' ''abcdefghijklmnopqrstuvwxyz'') c of
        Some l \<Rightarrow> l
      | None \<Rightarrow> c)"

definition toLowerCase :: "string \<Rightarrow> string" where
  "toLowerCase s = map lower_char s"

text \<open>
  The own enumerable properties of a value, which is what an object spread
  \<^verbatim>\<open>{...v}\<close> copies: the members of an object, the indexed elements of an array or of a
  string, nothing for \<^verbatim>\<open>undefined\<close>, \<^verbatim>\<open>null\<close>, a number or a boolean.
\<close>

definition indexed :: "'a list \<Rightarrow> (string \<Rightarrow> 'a option)" where
  "indexed xs = map_of (zip (map digits [0 ..< length xs]) xs)"

fun own_props :: "jsval \<Rightarrow> (string \<Rightarrow> jsval option)" where
  "own_props (JObj m) = m"
| "own_props (JArr vs) = indexed vs"
| "own_props (JStr s) = indexed (map (\<lambda>c. JStr [c]) s)"
| "own_props _ = Map.empty"

text \<open>
  A property read \<^verbatim>\<open>v.k\<close>: a \<^verbatim>\<open>TypeError\<close> on \<^verbatim>\<open>undefined\<close> and \<^verbatim>\<open>null\<close>, the member
  when there is one, \<^verbatim>\<open>undefined\<close> otherwise. The error keeps the name of the property
  being read (the message text itself depends on the engine). Inherited properties are
  left out: none of the names the task reads (\<^verbatim>\<open>cowToken\<close>, \<^verbatim>\<open>cowDao\<close>, \<^verbatim>\<open>bridge\<close>,
  \<^verbatim>\<open>virtualCowToken\<close>, \<^verbatim>\<open>expectedAddress\<close>, \<^verbatim>\<open>multiTokenMediatorGnosisChain\<close>,
  \<^verbatim>\<open>gnoPrice\<close>) is one.
\<close>

definition get_prop :: "jsval \<Rightarrow> string \<Rightarrow> error + jsval" where
  "get_prop v k =
     (if v = JUndefined \<or> v = JNull then Inl (TypeError k)
      else Inr (case own_props v k of None \<Rightarrow> JUndefined | Some x \<Rightarrow> x))"

text \<open>The object literal \<^verbatim>\<open>{...v, k: x}\<close>.\<close>

definition spread_with :: "jsval \<Rightarrow> (string \<times> jsval) list \<Rightarrow> jsval" where
  "spread_with v kxs = JObj (fold (\<lambda>(k, x) m. m(k \<mapsto> x)) kxs (own_props v))"

section \<open>ethers: \<^verbatim>\<open>constants.AddressZero\<close> and \<^verbatim>\<open>utils.parseUnits\<close>\<close>

definition AddressZero :: string where
  "AddressZero = ''0x0000000000000000000000000000000000000000''"

text \<open>
  \<^verbatim>\<open>utils.parseUnits(value, decimals)\<close> of ethers v5 with a numeric unit: the decimal
  string \<^verbatim>\<open>value\<close> scaled by \<^verbatim>\<open>10 ^ decimals\<close>. It rejects a string that is not
  \<^verbatim>\<open>-?[0-9.]+\<close>, a lone point, more than one point, and a fraction with more significant
  digits than \<^verbatim>\<open>decimals\<close>.
\<close>

definition is_digit :: "char \<Rightarrow> bool" where
  "is_digit c = (48 \<le> (of_char c :: nat) \<and> (of_char c :: nat) \<le> 57)"

definition digits_value :: "string \<Rightarrow> nat" where
  "digits_value s = foldl (\<lambda>acc c. 10 * acc + ((of_char c :: nat) - 48)) 0 s"

definition trim_trailing_zeros :: "string \<Rightarrow> string" where
  "trim_trailing_zeros s = rev (dropWhile (\<lambda>c. c = CHR ''0'') (rev s))"

definition parseUnits :: "string \<Rightarrow> nat \<Rightarrow> error + int" where
  "parseUnits v decimals =
     (let negative = (take 1 v = ''-'');
          body = (if negative then drop 1 v else v)
      in if body = [] \<or> \<not> list_all (\<lambda>c. is_digit c \<or> c = CHR ''.'') body
         then Inl (Error ''invalid decimal value'')
         else if body = ''.'' then Inl (Error ''missing value'')
         else
           let whole0 = takeWhile (\<lambda>c. c \<noteq> CHR ''.'') body;
               rest = drop 1 (dropWhile (\<lambda>c. c \<noteq> CHR ''.'') body)
           in if CHR ''.'' \<in> set rest then Inl (Error ''too many decimal points'')
              else
                let whole = (if whole0 = [] then ''0'' else whole0);
                    fraction = trim_trailing_zeros (if rest = [] then ''0'' else rest)
                in if length fraction > decimals
                   then Inl (Error ''fractional component exceeds decimals'')
                   else
                     let padded = fraction @ replicate (decimals - length fraction) CHR ''0'';
                         wei = int (digits_value whole * 10 ^ decimals + digits_value padded)
                     in Inr (if negative then - wei else wei))"

section \<open>The world the task runs in\<close>

text \<open>
  \<^verbatim>\<open>DeploymentHelperDeployParams\<close>, with the fields the task fills in. The fields copied
  from the settings document or looked up in a table hold whatever value was found there,
  \<^verbatim>\<open>undefined\<close> included.
\<close>

record DeploymentHelperDeployParams =
  foreignToken :: string
  multiTokenMediatorGnosisChain :: jsval
  merkleRoot :: string
  communityFundsTarget :: string
  gnoToken :: jsval
  gnoPrice :: jsval
  nativeTokenPrice :: int
  wrappedNativeToken :: jsval

text \<open>
  The file system is a map from paths to file contents; directories are implicit in the
  paths. Every effect of a run is appended to a trace, in the order in which it happens.
  The call of \<^verbatim>\<open>generateProposal\<close> is recorded with the three arguments handed to it.
\<close>

datatype fs_op =
    ReadFile string
  | Rm string
  | Mkdir string
  | WriteFile string string

datatype event =
    Call_getSigners
  | Call_getNetwork
  | Fs fs_op
  | Call_parseCsvFile string
  | Call_generateProposal jsval jsval jsval
  | Console_log string
  | Console_warn string
  | Console_log_params string DeploymentHelperDeployParams
  | Call_getContractFactory string
  | Call_deploy
  | Call_removeSplitClaimFiles string
  | Call_splitClaimsAndSaveToFolder string

type_synonym filesystem = "string \<Rightarrow> string option"

record world =
  files :: filesystem
  trace :: "event list"

text \<open>
  What the task is given: the Hardhat runtime environment, the built-ins, and the
  functions and tables it imports from the repository's other modules. Each is a
  parameter: \<open>'c\<close> is the type of a claim, \<open>'p\<close> of a claim with its proof, \<open>'a\<close> of the
  constructor arguments. A call that can throw or reject returns \<open>Inl\<close>.
  \<^item> \<open>getSigners\<close> gives the addresses of the signers, \<open>getNetwork\<close> the chain
    identifier of the network, a number.
  \<^item> \<open>fs_error\<close> says which file-system operations fail for a reason of the operating
    system (permissions, a full disk), given the operation and the files at that moment.
  \<^item> \<open>parseCsvFile\<close> is given the path and may read the files; it changes nothing.
  \<^item> \<open>removeSplitClaimFiles\<close> and \<open>splitClaimsAndSaveToFolder\<close> are given the files and
    return them changed.
\<close>

record ('c, 'p, 'a) env =
  getSigners :: "error + string list"
  getNetwork :: "error + int"
  fs_error :: "fs_op \<Rightarrow> filesystem \<Rightarrow> error option"
  JSON_parse :: "string \<Rightarrow> error + jsval"
  JSON_stringify_string :: "string \<Rightarrow> string"
  JSON_stringify_claims :: "'p list \<Rightarrow> string"
  parseCsvFile :: "string \<Rightarrow> filesystem \<Rightarrow> error + 'c list"
  computeProofs :: "'c list \<Rightarrow> error + string \<times> 'p list"
  dummyVirtualTokenCreationSettings :: jsval
  defaultSafeDeploymentAddresses :: "string \<Rightarrow> error + jsval"
  generateProposal :: "jsval \<Rightarrow> jsval \<Rightarrow> jsval \<Rightarrow> error + string \<times> string"
  defaultTokens_gno :: "string \<Rightarrow> string option"
  defaultTokens_weth :: "string \<Rightarrow> string option"
  getContractFactory :: "string \<Rightarrow> error option"
  constructorInput :: "DeploymentHelperDeployParams \<Rightarrow> error + 'a"
  deploy :: "'a \<Rightarrow> error + string"
  removeSplitClaimFiles :: "string \<Rightarrow> filesystem \<Rightarrow> error + filesystem"
  splitClaimsAndSaveToFolder :: "'p list \<Rightarrow> string \<Rightarrow> filesystem \<Rightarrow> error + filesystem"

text \<open>
  The task's arguments \<^verbatim>\<open>{ claims: claimCsv, settings: settingsJson }\<close>, under the names
  the function binds them to.
\<close>

record Args =
  claimCsv :: string
  settingsJson :: string

subsection \<open>Sequencing: a step returns a value or throws, and leaves a world\<close>

type_synonym 'x run = "world \<Rightarrow> (error + 'x) \<times> world"

definition ret :: "'x \<Rightarrow> 'x run" where
  "ret x w = (Inr x, w)"

definition throw :: "error \<Rightarrow> 'x run" where
  "throw e w = (Inl e, w)"

definition lift :: "error + 'x \<Rightarrow> 'x run" where
  "lift r w = (r, w)"

definition bnd :: "'x run \<Rightarrow> ('x \<Rightarrow> 'y run) \<Rightarrow> 'y run" where
  "bnd m k w = (case m w of (Inl e, w') \<Rightarrow> (Inl e, w') | (Inr x, w') \<Rightarrow> k x w')"

definition emit :: "event \<Rightarrow> unit run" where
  "emit ev w = (Inr (), w\<lparr>trace := trace w @ [ev]\<rparr>)"

text \<open>A call of an outside function: the call is recorded, then its result returned.\<close>

definition call :: "event \<Rightarrow> error + 'x \<Rightarrow> 'x run" where
  "call ev r = bnd (emit ev) (\<lambda>_. lift r)"

subsection \<open>\<^verbatim>\<open>fs.readFile\<close>, \<^verbatim>\<open>fs.rm\<close>, \<^verbatim>\<open>fs.mkdir\<close>, \<^verbatim>\<open>fs.writeFile\<close>\<close>

text \<open>
  \<^verbatim>\<open>fs.rm(p, {recursive: true, force: true})\<close> removes the file \<open>p\<close> or the whole tree
  under the directory \<open>p\<close>, and is not an error when there is nothing at \<open>p\<close>.
  \<^verbatim>\<open>fs.writeFile(p, c)\<close> replaces the whole content of \<open>p\<close>.
  \<^verbatim>\<open>fs.mkdir(p, {recursive: true})\<close> changes no file.
\<close>

definition rm_tree :: "string \<Rightarrow> filesystem \<Rightarrow> filesystem" where
  "rm_tree p fs = (\<lambda>q. if q = p \<or> take (length p + 1) q = p @ ''/'' then None else fs q)"

fun apply_fs_op :: "fs_op \<Rightarrow> filesystem \<Rightarrow> filesystem" where
  "apply_fs_op (ReadFile p) fs = fs"
| "apply_fs_op (Rm p) fs = rm_tree p fs"
| "apply_fs_op (Mkdir p) fs = fs"
| "apply_fs_op (WriteFile p c) fs = fs(p \<mapsto> c)"

definition fs_do :: "('c, 'p, 'a) env \<Rightarrow> fs_op \<Rightarrow> unit run" where
  "fs_do env op w =
     (let w' = w\<lparr>trace := trace w @ [Fs op]\<rparr>
      in case fs_error env op (files w) of
           Some e \<Rightarrow> (Inl e, w')
         | None \<Rightarrow> (Inr (), w'\<lparr>files := apply_fs_op op (files w)\<rparr>))"

definition fs_readFile :: "('c, 'p, 'a) env \<Rightarrow> string \<Rightarrow> string run" where
  "fs_readFile env p =
     bnd (fs_do env (ReadFile p))
       (\<lambda>_ w. case files w p of None \<Rightarrow> (Inl (IOError p), w) | Some c \<Rightarrow> (Inr c, w))"

text \<open>An imported helper that rewrites the output folder: recorded, then applied.\<close>

definition fs_helper :: "event \<Rightarrow> (filesystem \<Rightarrow> error + filesystem) \<Rightarrow> unit run" where
  "fs_helper ev f w =
     (let w' = w\<lparr>trace := trace w @ [ev]\<rparr>
      in case f (files w) of
           Inl e \<Rightarrow> (Inl e, w')
         | Inr fs' \<Rightarrow> (Inr (), w'\<lparr>files := fs'\<rparr>))"

section \<open>The task \<^verbatim>\<open>deployment-bridged-token-deployer\<close>\<close>

definition OUTPUT_FOLDER_GC :: string where
  "OUTPUT_FOLDER_GC = ''./output/deployment-gc''"

text \<open>Lines 65-69: the settings handed to \<^verbatim>\<open>generateProposal\<close>.\<close>

definition dummySettings :: "('c, 'p, 'a) env \<Rightarrow> jsval \<Rightarrow> jsval" where
  "dummySettings env settings =
     spread_with settings
       [(''virtualCowToken'', dummyVirtualTokenCreationSettings env),
        (''multiTokenMediatorGnosisChain'', JStr AddressZero)]"

text \<open>What lines 44-92 have computed when the expected addresses are compared.\<close>

record 'p prepared =
  chainId_of :: string
  settings_of :: jsval
  merkleRoot_of :: string
  claimsWithProof_of :: "'p list"
  cowToken_of :: string
  cowDao_of :: string

text \<open>
  Lines 44-92: signer and chain, the chain check, the settings, the claims, the proofs,
  and the predicted addresses. \<^verbatim>\<open>const [deployer] = ...\<close> is \<^verbatim>\<open>undefined\<close> when there is
  no signer, and \<^verbatim>\<open>deployer.address\<close> on line 57 then is a \<^verbatim>\<open>TypeError\<close>.
\<close>

definition prepare :: "('c, 'p, 'a) env \<Rightarrow> Args \<Rightarrow> 'p prepared run" where
  "prepare env args =
     (bnd (call Call_getSigners (getSigners env)) (\<lambda>signers.
      bnd (call Call_getNetwork (getNetwork env)) (\<lambda>network.
      let chainId = toString network in
      if chainId \<noteq> ''100''
      then throw (Error (''This script must be run on gnosis chain. Found chainId '' @ chainId))
      else
      bnd (fs_readFile env (settingsJson args)) (\<lambda>text.
      bnd (lift (JSON_parse env text)) (\<lambda>settings.
      bnd (case signers of
             [] \<Rightarrow> throw (TypeError ''address'')
           | deployer # _ \<Rightarrow> emit (Console_log (''Using deployer '' @ deployer))) (\<lambda>_.
      bnd (emit (Console_log ''Reading user claims for gnosis chain from file...'')) (\<lambda>_.
      bnd (\<lambda>w. call (Call_parseCsvFile (claimCsv args))
                 (parseCsvFile env (claimCsv args) (files w)) w) (\<lambda>claims.
      bnd (emit (Console_log ''Generating Merkle proofs...'')) (\<lambda>_.
      bnd (lift (computeProofs env claims)) (\<lambda>(root, claimsWithProof).
      bnd (lift (defaultSafeDeploymentAddresses env chainId)) (\<lambda>safe.
      bnd (lift (defaultSafeDeploymentAddresses env ''100'')) (\<lambda>safeGC.
      let handed = dummySettings env settings;
          addresses = spread_with safe [(''forwarder'', JStr AddressZero)];
          addressesGC = spread_with safeGC [(''forwarder'', JStr AddressZero)] in
      bnd (call (Call_generateProposal handed addresses addressesGC)
             (generateProposal env handed addresses addressesGC))
        (\<lambda>(cowToken, cowDao).
      ret \<lparr>chainId_of = chainId, settings_of = settings, merkleRoot_of = root,
           claimsWithProof_of = claimsWithProof, cowToken_of = cowToken,
           cowDao_of = cowDao\<rparr>)))))))))))))"

text \<open>
  Lines 94-104. \<^verbatim>\<open>expectedAddress\<close> is \<^verbatim>\<open>undefined\<close>: the warning. A string: compared in
  lower case. Anything else has no \<^verbatim>\<open>toLowerCase\<close>: a \<^verbatim>\<open>TypeError\<close>.
\<close>

definition check_cowToken :: "jsval \<Rightarrow> string \<Rightarrow> unit run" where
  "check_cowToken settings cowToken =
     bnd (lift (get_prop settings ''cowToken'')) (\<lambda>entry.
     bnd (lift (get_prop entry ''expectedAddress'')) (\<lambda>expectedAddress.
     case expectedAddress of
       JUndefined \<Rightarrow> emit (Console_warn ''settings.cowToken.expectedAddress was not defined'')
     | JStr expected \<Rightarrow>
         if toLowerCase expected \<noteq> toLowerCase cowToken
         then throw (Error (''Expected cowToken address '' @ expected
                @ '' does not coincide with calculated address '' @ cowToken))
         else ret ()
     | _ \<Rightarrow> throw (TypeError ''toLowerCase'')))"

text \<open>Lines 106-116.\<close>

definition check_cowDao :: "jsval \<Rightarrow> string \<Rightarrow> unit run" where
  "check_cowDao settings cowDao =
     bnd (lift (get_prop settings ''cowDao'')) (\<lambda>entry.
     bnd (lift (get_prop entry ''expectedAddress'')) (\<lambda>expectedAddress.
     case expectedAddress of
       JUndefined \<Rightarrow> emit (Console_warn ''settings.cowDao.expectedAddress was not defined'')
     | JStr expected \<Rightarrow>
         if toLowerCase expected \<noteq> toLowerCase cowDao
         then throw (Error ''Expected cowDao address does not coincide with calculated address'')
         else ret ()
     | _ \<Rightarrow> throw (TypeError ''toLowerCase'')))"

text \<open>
  Lines 118-128. A table lookup \<^verbatim>\<open>defaultTokens.gno[chainId]\<close> is \<^verbatim>\<open>undefined\<close> when the
  table has no entry for the chain. The fields are evaluated in the order written.
\<close>

definition table_entry :: "(string \<Rightarrow> string option) \<Rightarrow> string \<Rightarrow> jsval" where
  "table_entry t k = (case t k of None \<Rightarrow> JUndefined | Some a \<Rightarrow> JStr a)"

definition and_then :: "error + 'x \<Rightarrow> ('x \<Rightarrow> error + 'y) \<Rightarrow> error + 'y" where
  "and_then r k = (case r of Inl e \<Rightarrow> Inl e | Inr x \<Rightarrow> k x)"

definition deploymentHelperParameters ::
  "('c, 'p, 'a) env \<Rightarrow> 'p prepared \<Rightarrow> error + DeploymentHelperDeployParams" where
  "deploymentHelperParameters env pr =
     and_then (get_prop (settings_of pr) ''bridge'') (\<lambda>bridge.
     and_then (get_prop bridge ''multiTokenMediatorGnosisChain'') (\<lambda>mediator.
     and_then (get_prop (settings_of pr) ''virtualCowToken'') (\<lambda>virtualCowToken.
     and_then (get_prop virtualCowToken ''gnoPrice'') (\<lambda>price.
     and_then (parseUnits ''0.15'' 18) (\<lambda>native.
     Inr \<lparr>foreignToken = cowToken_of pr,
          multiTokenMediatorGnosisChain = mediator,
          merkleRoot = merkleRoot_of pr,
          communityFundsTarget = cowDao_of pr,
          gnoToken = table_entry (defaultTokens_gno env) (chainId_of pr),
          gnoPrice = price,
          nativeTokenPrice = native,
          wrappedNativeToken = table_entry (defaultTokens_weth env) (chainId_of pr)\<rparr>)))))"

text \<open>Lines 130-143: the parameters are printed and the contract is deployed with them.\<close>

definition deploy_contract ::
  "('c, 'p, 'a) env \<Rightarrow> DeploymentHelperDeployParams \<Rightarrow> string run" where
  "deploy_contract env ps =
     bnd (emit (Console_log_params ''The following deployment parameters will be used'' ps))
       (\<lambda>_.
     bnd (call (Call_getContractFactory ''BridgedTokenDeployer'')
            (case getContractFactory env ''BridgedTokenDeployer'' of
               Some e \<Rightarrow> Inl e | None \<Rightarrow> Inr ())) (\<lambda>_.
     bnd (lift (constructorInput env ps)) (\<lambda>input.
     call Call_deploy (deploy env input))))"

text \<open>Lines 145-166: old files are cleared, then the generated data is saved.\<close>

definition save_output :: "('c, 'p, 'a) env \<Rightarrow> 'p list \<Rightarrow> string \<Rightarrow> unit run" where
  "save_output env claimsWithProof address =
     bnd (emit (Console_log ''Clearing old files...'')) (\<lambda>_.
     bnd (fs_do env (Rm (OUTPUT_FOLDER_GC @ ''/claims.json''))) (\<lambda>_.
     bnd (fs_do env (Rm (OUTPUT_FOLDER_GC @ ''/params.json''))) (\<lambda>_.
     bnd (fs_helper (Call_removeSplitClaimFiles OUTPUT_FOLDER_GC)
            (removeSplitClaimFiles env OUTPUT_FOLDER_GC)) (\<lambda>_.
     bnd (emit (Console_log ''Saving generated data to file...'')) (\<lambda>_.
     bnd (fs_do env (Mkdir OUTPUT_FOLDER_GC)) (\<lambda>_.
     bnd (fs_do env (WriteFile (OUTPUT_FOLDER_GC @ ''/addresses.json'')
            (JSON_stringify_string env address))) (\<lambda>_.
     bnd (fs_do env (WriteFile (OUTPUT_FOLDER_GC @ ''/claims.json'')
            (JSON_stringify_claims env claimsWithProof))) (\<lambda>_.
     fs_helper (Call_splitClaimsAndSaveToFolder OUTPUT_FOLDER_GC)
       (splitClaimsAndSaveToFolder env claimsWithProof OUTPUT_FOLDER_GC)))))))))"

definition assemble_deploy_save :: "('c, 'p, 'a) env \<Rightarrow> 'p prepared \<Rightarrow> unit run" where
  "assemble_deploy_save env pr =
     bnd (lift (deploymentHelperParameters env pr)) (\<lambda>ps.
     bnd (deploy_contract env ps) (\<lambda>address.
     save_output env (claimsWithProof_of pr) address))"

definition generateDeployment :: "('c, 'p, 'a) env \<Rightarrow> Args \<Rightarrow> unit run" where
  "generateDeployment env args =
     bnd (prepare env args) (\<lambda>pr.
     bnd (check_cowToken (settings_of pr) (cowToken_of pr)) (\<lambda>_.
     bnd (check_cowDao (settings_of pr) (cowDao_of pr)) (\<lambda>_.
     assemble_deploy_save env pr)))"

subsection \<open>Vocabulary of the properties\<close>

text \<open>The events that write to, or remove from, the file system.\<close>

fun mutates :: "event \<Rightarrow> bool" where
  "mutates (Fs (Rm p)) = True"
| "mutates (Fs (Mkdir p)) = True"
| "mutates (Fs (WriteFile p c)) = True"
| "mutates (Call_removeSplitClaimFiles p) = True"
| "mutates (Call_splitClaimsAndSaveToFolder p) = True"
| "mutates _ = False"

text \<open>A step that leaves the files alone and records no event that touches them.\<close>

definition quiet :: "'x run \<Rightarrow> bool" where
  "quiet m = (\<forall>w. files (snd (m w)) = files w
                \<and> filter mutates (trace (snd (m w))) = filter mutates (trace w))"

text \<open>
  The three outcomes of comparing \<^verbatim>\<open>settings.<name>.expectedAddress\<close> with a predicted
  address: absent, equal in lower case, different in lower case.
\<close>

definition expectedAddress :: "jsval \<Rightarrow> string \<Rightarrow> jsval option" where
  "expectedAddress settings name =
     (case get_prop settings name of
        Inl _ \<Rightarrow> None
      | Inr entry \<Rightarrow> (case get_prop entry ''expectedAddress'' of
                       Inl _ \<Rightarrow> None
                     | Inr v \<Rightarrow> Some v))"

definition expected_absent :: "jsval \<Rightarrow> string \<Rightarrow> bool" where
  "expected_absent settings name = (expectedAddress settings name = Some JUndefined)"

definition expected_matches :: "jsval \<Rightarrow> string \<Rightarrow> string \<Rightarrow> bool" where
  "expected_matches settings name predicted =
     (case expectedAddress settings name of
        Some (JStr e) \<Rightarrow> toLowerCase e = toLowerCase predicted
      | _ \<Rightarrow> False)"

definition expected_differs :: "jsval \<Rightarrow> string \<Rightarrow> string \<Rightarrow> bool" where
  "expected_differs settings name predicted =
     (case expectedAddress settings name of
        Some (JStr e) \<Rightarrow> toLowerCase e \<noteq> toLowerCase predicted
      | _ \<Rightarrow> False)"

text \<open>The warnings of the two comparisons, in the order in which they are printed.\<close>

definition warnings :: "jsval \<Rightarrow> event list" where
  "warnings settings =
     (if expected_absent settings ''cowToken''
      then [Console_warn ''settings.cowToken.expectedAddress was not defined''] else [])
     @ (if expected_absent settings ''cowDao''
        then [Console_warn ''settings.cowDao.expectedAddress was not defined''] else [])"

text \<open>The events that record a call of \<^verbatim>\<open>generateProposal\<close>.\<close>

fun is_generateProposal :: "event \<Rightarrow> bool" where
  "is_generateProposal (Call_generateProposal handed addresses addressesGC) = True"
| "is_generateProposal _ = False"

text \<open>A value is missing when a property read finds \<^verbatim>\<open>undefined\<close> or \<^verbatim>\<open>null\<close>.\<close>

definition missing :: "jsval \<Rightarrow> bool" where
  "missing v = (v = JUndefined \<or> v = JNull)"

definition prop_or_undefined :: "jsval \<Rightarrow> string \<Rightarrow> jsval" where
  "prop_or_undefined v k = (case own_props v k of None \<Rightarrow> JUndefined | Some x \<Rightarrow> x)"

text \<open>Whether a text occurs in a message.\<close>

fun occurs_in :: "string \<Rightarrow> string \<Rightarrow> bool" where
  "occurs_in sub [] = (sub = [])"
| "occurs_in sub (c # cs) = (take (length sub) (c # cs) = sub \<or> occurs_in sub cs)"

section \<open>The commitment tree\<close>

text \<open>
  Modelled from the spec: \<^verbatim>\<open>computeProofs\<close> is imported from \<^verbatim>\<open>../ts\<close>, which is not part
  of the sources at hand, so the tree is built the way the specification describes it.
  Each claim is hashed to a leaf. A level is turned into the next one by hashing adjacent
  nodes in pairs, left to right; a last node without a partner is either promoted
  unchanged or paired with itself, by one fixed policy. This is repeated until one hash
  remains, the root. The proof of a leaf is the sibling hash, with its side, at every
  level visited. The leaf hash and the pair hash are parameters. No root is defined for
  an empty list of claims.
\<close>

datatype odd_policy = Promote | Duplicate

datatype side = OnLeft | OnRight

fun next_level :: "odd_policy \<Rightarrow> ('h \<Rightarrow> 'h \<Rightarrow> 'h) \<Rightarrow> 'h list \<Rightarrow> 'h list" where
  "next_level pol H (a # b # rest) = H a b # next_level pol H rest"
| "next_level pol H [a] = (case pol of Promote \<Rightarrow> [a] | Duplicate \<Rightarrow> [H a a])"
| "next_level pol H [] = []"

lemma length_next_level: "length (next_level pol H level) = (length level + 1) div 2"
  by (induction pol H level rule: next_level.induct) (auto split: odd_policy.splits)

function tree_root :: "odd_policy \<Rightarrow> ('h \<Rightarrow> 'h \<Rightarrow> 'h) \<Rightarrow> 'h list \<Rightarrow> 'h option" where
  "tree_root pol H [] = None"
| "tree_root pol H [r] = Some r"
| "tree_root pol H (a # b # rest) = tree_root pol H (next_level pol H (a # b # rest))"
  by pat_completeness auto
termination
  by (relation "measure (\<lambda>(pol, H, level). length level)") (auto simp: length_next_level)

definition sibling :: "odd_policy \<Rightarrow> 'h list \<Rightarrow> nat \<Rightarrow> ('h \<times> side) list" where
  "sibling pol level i =
     (if odd i then [(level ! (i - 1), OnLeft)]
      else if i + 1 < length level then [(level ! (i + 1), OnRight)]
      else (case pol of Promote \<Rightarrow> [] | Duplicate \<Rightarrow> [(level ! i, OnRight)]))"

function proof_path ::
  "odd_policy \<Rightarrow> ('h \<Rightarrow> 'h \<Rightarrow> 'h) \<Rightarrow> 'h list \<Rightarrow> nat \<Rightarrow> ('h \<times> side) list" where
  "proof_path pol H level i =
     (if length level \<le> 1 then []
      else sibling pol level i @ proof_path pol H (next_level pol H level) (i div 2))"
  by pat_completeness auto
termination
  by (relation "measure (\<lambda>(pol, H, level, i). length level)") (auto simp: length_next_level)

declare proof_path.simps [simp del]

definition computeProofs_spec ::
  "odd_policy \<Rightarrow> ('c \<Rightarrow> 'h) \<Rightarrow> ('h \<Rightarrow> 'h \<Rightarrow> 'h) \<Rightarrow> 'c list
     \<Rightarrow> ('h \<times> ('c \<times> ('h \<times> side) list) list) option" where
  "computeProofs_spec pol leafHash H claims =
     (let leaves = map leafHash claims in
      case tree_root pol H leaves of
        None \<Rightarrow> None
      | Some root \<Rightarrow>
          Some (root, map (\<lambda>i. (claims ! i, proof_path pol H leaves i)) [0 ..< length claims]))"

text \<open>Recomputing the root from a leaf hash by folding its proof over it.\<close>

fun recompute :: "('h \<Rightarrow> 'h \<Rightarrow> 'h) \<Rightarrow> 'h \<Rightarrow> ('h \<times> side) list \<Rightarrow> 'h" where
  "recompute H h [] = h"
| "recompute H h ((s, OnLeft) # rest) = recompute H (H s h) rest"
| "recompute H h ((s, OnRight) # rest) = recompute H (H h s) rest"

section \<open>A concrete environment\<close>

text \<open>
  An environment to run the task in: one signer, chain 100, a settings file that parses
  to a given document, a claims file holding one claim, hashes that spell out what was
  hashed, fixed predicted addresses, and a deployment that succeeds.
  Modelled from the spec: the helpers \<^verbatim>\<open>removeSplitClaimFiles\<close> and
  \<^verbatim>\<open>splitClaimsAndSaveToFolder\<close> are imported from \<^verbatim>\<open>../ts/split\<close>, which is not part of
  the sources at hand; here the first removes the prior shard files and the second writes
  shards of one claim each, named by their index.
\<close>

definition obj :: "(string \<times> jsval) list \<Rightarrow> jsval" where
  "obj members = JObj (map_of members)"

definition sample_leaf :: "string \<Rightarrow> string" where
  "sample_leaf c = ''leaf('' @ c @ '')''"

definition sample_pair :: "string \<Rightarrow> string \<Rightarrow> string" where
  "sample_pair a b = ''node('' @ a @ '','' @ b @ '')''"

fun write_shards :: "nat \<Rightarrow> string list \<Rightarrow> string \<Rightarrow> filesystem \<Rightarrow> filesystem" where
  "write_shards i [] folder fs = fs"
| "write_shards i (c # cs) folder fs =
     write_shards (Suc i) cs folder (fs(folder @ ''/chunks/'' @ digits i @ ''.json'' \<mapsto> c))"

definition sample_env ::
  "jsval \<Rightarrow> (string, string \<times> (string \<times> side) list, DeploymentHelperDeployParams) env" where
  "sample_env doc =
     \<lparr>getSigners = Inr [''0xD1''],
      getNetwork = Inr 100,
      fs_error = (\<lambda>op fs. None),
      JSON_parse = (\<lambda>text. Inr doc),
      JSON_stringify_string = (\<lambda>s. CHR 0x22 # s @ [CHR 0x22]),
      JSON_stringify_claims = (\<lambda>cs. concat (map fst cs)),
      parseCsvFile = (\<lambda>path fs. case fs path of
                                     None \<Rightarrow> Inl (IOError path)
                                   | Some content \<Rightarrow> Inr [content]),
      computeProofs = (\<lambda>cs. case computeProofs_spec Promote sample_leaf sample_pair cs of
                              None \<Rightarrow> Inl (Error ''empty tree'')
                            | Some r \<Rightarrow> Inr r),
      dummyVirtualTokenCreationSettings = obj [],
      defaultSafeDeploymentAddresses = (\<lambda>chain. Inr (obj [])),
      generateProposal = (\<lambda>s safe safeGC. Inr (''0xAAAA'', ''0xBBBB'')),
      defaultTokens_gno = [''100'' \<mapsto> ''0x6E0''],
      defaultTokens_weth = [''100'' \<mapsto> ''0xE91''],
      getContractFactory = (\<lambda>name. None),
      constructorInput = (\<lambda>ps. Inr ps),
      deploy = (\<lambda>input. Inr ''0xDE9''),
      removeSplitClaimFiles = (\<lambda>folder fs. Inr (rm_tree (folder @ ''/chunks'') fs)),
      splitClaimsAndSaveToFolder =
        (\<lambda>cs folder fs. Inr (write_shards 0 (map fst cs) folder fs))\<rparr>"

definition sample_args :: Args where
  "sample_args = \<lparr>claimCsv = ''claims.csv'', settingsJson = ''settings.json''\<rparr>"

definition sample_world :: world where
  "sample_world =
     \<lparr>files = [''settings.json'' \<mapsto> ''{}'',
               ''claims.csv'' \<mapsto> ''0xC1'',
               ''./output/deployment-gc/params.json'' \<mapsto> ''old'',
               ''./output/deployment-gc/chunks/7.json'' \<mapsto> ''old''],
      trace = []\<rparr>"

text \<open>
  Settings documents: the two \<^verbatim>\<open>expectedAddress\<close> entries and the bridge section vary,
  the rest is fixed.
\<close>

definition sample_settings :: "jsval \<Rightarrow> jsval \<Rightarrow> jsval \<Rightarrow> jsval" where
  "sample_settings cowTokenEntry cowDaoEntry bridge =
     obj [(''cowToken'', cowTokenEntry),
          (''cowDao'', cowDaoEntry),
          (''bridge'', bridge),
          (''virtualCowToken'', obj [(''gnoPrice'', JStr ''1000'')])]"

definition expecting :: "string \<Rightarrow> jsval" where
  "expecting a = obj [(''expectedAddress'', JStr a)]"

definition sample_bridge :: jsval where
  "sample_bridge = obj [(''multiTokenMediatorGnosisChain'', JStr ''0x4D1'')]"

text \<open>The call of \<^verbatim>\<open>generateProposal\<close> in the concrete environment, for a given document.\<close>

definition sample_proposal_call :: "jsval \<Rightarrow> event" where
  "sample_proposal_call doc =
     Call_generateProposal (dummySettings (sample_env doc) doc)
       (spread_with (obj []) [(''forwarder'', JStr AddressZero)])
       (spread_with (obj []) [(''forwarder'', JStr AddressZero)])"

text \<open>The record \<^verbatim>\<open>prepare\<close> returns in the concrete environment, for a given document.\<close>

definition sample_prepared :: "jsval \<Rightarrow> (string \<times> (string \<times> side) list) prepared" where
  "sample_prepared doc =
     \<lparr>chainId_of = ''100'', settings_of = doc, merkleRoot_of = sample_leaf ''0xC1'',
      claimsWithProof_of = [(''0xC1'', [])], cowToken_of = ''0xAAAA'',
      cowDao_of = ''0xBBBB''\<rparr>"

section \<open>Facts about sequencing\<close>

lemmas run_defs =
  bnd_def ret_def throw_def lift_def emit_def call_def fs_do_def fs_readFile_def fs_helper_def

lemma bnd_assoc: "bnd (bnd m k) h = bnd m (\<lambda>x. bnd (k x) h)"
  by (rule ext) (simp add: bnd_def split: prod.splits sum.splits)

lemma bnd_Inr: "m w = (Inr x, w1) \<Longrightarrow> bnd m k w = k x w1"
  by (simp add: bnd_def)

lemma bnd_Inl: "m w = (Inl e, w1) \<Longrightarrow> bnd m k w = (Inl e, w1)"
  by (simp add: bnd_def)

lemma bnd_InrD:
  "bnd m k w = (Inr y, w') \<Longrightarrow> \<exists>x w1. m w = (Inr x, w1) \<and> k x w1 = (Inr y, w')"
  by (auto simp: bnd_def split: prod.splits sum.splits)

subsection \<open>Steps that leave the files alone\<close>

lemma quietI:
  assumes "\<And>w r w'. m w = (r, w') \<Longrightarrow>
     files w' = files w \<and> filter mutates (trace w') = filter mutates (trace w)"
  shows "quiet m"
  unfolding quiet_def using assms by (metis prod.collapse)

lemma quietD:
  assumes "quiet m" and "m w = (r, w')"
  shows "files w' = files w \<and> filter mutates (trace w') = filter mutates (trace w)"
  using assms unfolding quiet_def by (metis snd_conv)

lemma quiet_ret: "quiet (ret x)"
  by (simp add: quiet_def ret_def)

lemma quiet_throw: "quiet (throw e)"
  by (simp add: quiet_def throw_def)

lemma quiet_lift: "quiet (lift r)"
  by (simp add: quiet_def lift_def)

lemma quiet_emit: "\<not> mutates ev \<Longrightarrow> quiet (emit ev)"
  by (simp add: quiet_def emit_def)

lemma quiet_bnd:
  assumes m: "quiet m" and k: "\<And>x. quiet (k x)"
  shows "quiet (bnd m k)"
proof (rule quietI)
  fix w r w'
  assume run: "bnd m k w = (r, w')"
  obtain r1 w1 where m1: "m w = (r1, w1)" by (cases "m w")
  note q1 = quietD [OF m m1]
  show "files w' = files w \<and> filter mutates (trace w') = filter mutates (trace w)"
  proof (cases r1)
    case (Inl e)
    with m1 run have "w' = w1" by (simp add: bnd_def)
    with q1 show ?thesis by simp
  next
    case (Inr x)
    with m1 run have "k x w1 = (r, w')" by (simp add: bnd_def)
    from quietD [OF k this] q1 show ?thesis by simp
  qed
qed

lemma quiet_call: "\<not> mutates ev \<Longrightarrow> quiet (call ev r)"
  unfolding call_def by (intro quiet_bnd quiet_emit quiet_lift)

lemma quiet_call_files: "\<not> mutates ev \<Longrightarrow> quiet (\<lambda>w. call ev (f (files w)) w)"
  by (simp add: quiet_def call_def bnd_def emit_def lift_def)

lemma quiet_fs_readFile: "quiet (fs_readFile env p)"
  by (simp add: quiet_def fs_readFile_def fs_do_def bnd_def Let_def split: option.splits)

lemma quiet_prepare: "quiet (prepare env args)"
  unfolding prepare_def Let_def
  by (auto intro!: quiet_bnd quiet_call quiet_call_files quiet_fs_readFile quiet_lift
        quiet_emit quiet_throw quiet_ret split: list.splits prod.splits)

lemma quiet_check_cowToken: "quiet (check_cowToken s a)"
  unfolding check_cowToken_def
  by (auto intro!: quiet_bnd quiet_lift quiet_emit quiet_throw quiet_ret split: jsval.splits)

lemma quiet_check_cowDao: "quiet (check_cowDao s a)"
  unfolding check_cowDao_def
  by (auto intro!: quiet_bnd quiet_lift quiet_emit quiet_throw quiet_ret split: jsval.splits)

lemma quiet_checks: "quiet (bnd (check_cowToken s ct) (\<lambda>_. check_cowDao s cd))"
  by (intro quiet_bnd quiet_check_cowToken quiet_check_cowDao)

lemma quiet_deploy_contract: "quiet (deploy_contract env ps)"
  unfolding deploy_contract_def
  by (auto intro!: quiet_bnd quiet_lift quiet_emit quiet_call)

subsection \<open>The concrete environment, evaluated\<close>

lemmas sample_defs =
  sample_env_def sample_args_def sample_world_def sample_settings_def expecting_def
  sample_bridge_def obj_def

lemma toString_100: "toString 100 = ''100''"
  by (simp add: toString_def digits.simps digit_char_def)

lemma toString_1: "toString 1 = ''1''"
  by (simp add: toString_def digits.simps digit_char_def)

lemma digits_0: "digits 0 = ''0''"
  by (simp add: digits.simps digit_char_def)

lemma single_claim_tree: "computeProofs_spec pol leafHash H [c] = Some (leafHash c, [(c, [])])"
  by (simp add: computeProofs_spec_def proof_path.simps)

lemma sample_prepare:
  "prepare (sample_env doc) sample_args sample_world =
     (Inr (sample_prepared doc),
      sample_world\<lparr>trace :=
        [Call_getSigners, Call_getNetwork, Fs (ReadFile ''settings.json''),
         Console_log ''Using deployer 0xD1'',
         Console_log ''Reading user claims for gnosis chain from file...'',
         Call_parseCsvFile ''claims.csv'',
         Console_log ''Generating Merkle proofs...'',
         sample_proposal_call doc]\<rparr>)"
  by (simp add: prepare_def run_defs sample_env_def sample_args_def sample_world_def
      sample_prepared_def sample_proposal_call_def toString_100 Let_def single_claim_tree)

subsection \<open>The decimal digits of a number\<close>

lemma digits_nonempty: "digits n \<noteq> []"
  by (subst digits.simps) simp

lemma less_10_cases: "(d::nat) < 10 \<longleftrightarrow> d \<in> {0,1,2,3,4,5,6,7,8,9}"
  by auto

lemma digit_char_0: "d < 10 \<Longrightarrow> digit_char d = CHR ''0'' \<longleftrightarrow> d = 0"
  unfolding less_10_cases by (auto simp: digit_char_def)

lemma digit_char_1: "d < 10 \<Longrightarrow> digit_char d = CHR ''1'' \<longleftrightarrow> d = 1"
  unfolding less_10_cases by (auto simp: digit_char_def)

lemma digit_char_not_minus: "d < 10 \<Longrightarrow> digit_char d \<noteq> CHR ''-''"
  unfolding less_10_cases by (auto simp: digit_char_def)

lemma digits_unfold:
  "digits n = (if n < 10 then [digit_char n] else digits (n div 10) @ [digit_char (n mod 10)])"
  by (rule digits.simps)

lemma digits_snoc:
  assumes "digits n = xs @ [c]" and "xs \<noteq> []"
  shows "10 \<le> n \<and> digits (n div 10) = xs \<and> digit_char (n mod 10) = c"
proof (cases "n < 10")
  case True
  with assms show ?thesis by (simp add: digits_unfold [of n])
next
  case False
  with assms show ?thesis by (simp add: digits_unfold [of n])
qed

lemma digits_single:
  assumes "digits n = [c]"
  shows "n < 10 \<and> digit_char n = c"
proof (cases "n < 10")
  case True
  with assms show ?thesis by (simp add: digits_unfold [of n])
next
  case False
  with assms digits_nonempty [of "n div 10"] show ?thesis by (simp add: digits_unfold [of n])
qed


lemma digits_100: "digits n = ''100'' \<longleftrightarrow> n = 100"
proof
  assume a: "digits n = ''100''"
  from digits_snoc [of n "''10''" "CHR ''0''"] a
  have n: "digits (n div 10) = ''10''" "digit_char (n mod 10) = CHR ''0''" by auto
  from digits_snoc [of "n div 10" "''1''" "CHR ''0''"] n(1)
  have m: "digits (n div 10 div 10) = ''1''" "digit_char (n div 10 mod 10) = CHR ''0''" by auto
  from digits_single [OF m(1)]
  have k: "n div 10 div 10 < 10" "digit_char (n div 10 div 10) = CHR ''1''" by auto
  from k digit_char_1 [of "n div 10 div 10"] have h: "n div 10 div 10 = 1" by simp
  from m(2) digit_char_0 [of "n div 10 mod 10"] have t: "n div 10 mod 10 = 0" by simp
  from n(2) digit_char_0 [of "n mod 10"] have u: "n mod 10 = 0" by simp
  from h t div_mult_mod_eq [of "n div 10" 10] have "n div 10 = 10" by simp
  with u div_mult_mod_eq [of n 10] show "n = 100" by simp
next
  assume "n = 100"
  then show "digits n = ''100''" by (simp add: digits.simps digit_char_def)
qed

lemma toString_100_iff: "toString n = ''100'' \<longleftrightarrow> n = 100"
proof (cases "n < 0")
  case True
  then have "toString n \<noteq> ''100''" by (simp add: toString_def)
  with True show ?thesis by auto
next
  case False
  then show ?thesis using digits_100 [of "nat n"] by (auto simp: toString_def)
qed

section \<open>The chain check\<close>

text \<open>
  C2. When the chain identifier that the provider resolves is not \<^verbatim>\<open>"100"\<close>, the run
  aborts with the error \<^verbatim>\<open>This script must be run on gnosis chain. Found chainId <id>\<close>,
  which names the identifier found. Nothing has happened by then but the two calls that
  resolve the signers and the network: no file has been read, written or removed.
\<close>

theorem chain_mismatch_aborts_first:
  assumes "getSigners env = Inr signers"
    and "getNetwork env = Inr network"
    and "network \<noteq> 100"
  shows "generateDeployment env args w =
     (Inl (Error (''This script must be run on gnosis chain. Found chainId ''
                   @ toString network)),
      w\<lparr>trace := trace w @ [Call_getSigners, Call_getNetwork]\<rparr>)"
  using assms
  by (simp add: generateDeployment_def prepare_def run_defs Let_def toString_100_iff)

theorem chain_mismatch_aborts_first_witness:
  "generateDeployment ((sample_env (obj []))\<lparr>getNetwork := Inr 1\<rparr>) sample_args sample_world =
     (Inl (Error ''This script must be run on gnosis chain. Found chainId 1''),
      sample_world\<lparr>trace := [Call_getSigners, Call_getNetwork]\<rparr>)"
  using chain_mismatch_aborts_first
    [of "(sample_env (obj []))\<lparr>getNetwork := Inr 1\<rparr>" "[''0xD1'']" 1 sample_args sample_world]
  by (simp add: sample_env_def sample_world_def toString_1)

section \<open>The expected addresses\<close>

lemma expected_differs_cowToken:
  assumes "expected_differs s ''cowToken'' a"
  shows "\<exists>e. check_cowToken s a w = (Inl e, w)"
  using assms
  by (auto simp: expected_differs_def expectedAddress_def check_cowToken_def bnd_def lift_def
      throw_def split: sum.splits option.splits jsval.splits)

lemma expected_differs_cowDao:
  assumes "expected_differs s ''cowDao'' a"
  shows "\<exists>e. check_cowDao s a w = (Inl e, w)"
  using assms
  by (auto simp: expected_differs_def expectedAddress_def check_cowDao_def bnd_def lift_def
      throw_def split: sum.splits option.splits jsval.splits)

lemma checks_abort:
  assumes "expected_differs s ''cowToken'' ct \<or> expected_differs s ''cowDao'' cd"
  shows "\<exists>e w'. bnd (check_cowToken s ct) (\<lambda>_. check_cowDao s cd) w = (Inl e, w')"
proof -
  obtain r w1 where t: "check_cowToken s ct w = (r, w1)" by (cases "check_cowToken s ct w")
  show ?thesis
  proof (cases r)
    case (Inl e)
    with t show ?thesis by (simp add: bnd_def)
  next
    case (Inr u)
    with t assms expected_differs_cowToken [of s ct w]
    have "expected_differs s ''cowDao'' cd" by auto
    from expected_differs_cowDao [OF this, of w1] t Inr show ?thesis by (auto simp: bnd_def)
  qed
qed

lemma generateDeployment_after_prepare:
  assumes "prepare env args w = (Inr pr, w1)"
  shows "generateDeployment env args w =
     bnd (bnd (check_cowToken (settings_of pr) (cowToken_of pr))
              (\<lambda>_. check_cowDao (settings_of pr) (cowDao_of pr)))
         (\<lambda>_. assemble_deploy_save env pr) w1"
  using assms by (simp add: generateDeployment_def bnd_Inr bnd_assoc)

text \<open>
  C1. Take a run that has read its inputs and predicted the two addresses. If the
  settings document gives an \<^verbatim>\<open>expectedAddress\<close> for \<^verbatim>\<open>cowToken\<close> or for \<^verbatim>\<open>cowDao\<close> that
  differs, in lower case, from the predicted address, the run aborts with an error; the
  files are exactly what they were before the run, and the run has recorded no removal
  and no write.
\<close>

theorem mismatch_aborts_before_output:
  assumes prep: "prepare env args w = (Inr pr, w1)"
    and diff: "expected_differs (settings_of pr) ''cowToken'' (cowToken_of pr)
             \<or> expected_differs (settings_of pr) ''cowDao'' (cowDao_of pr)"
  shows "\<exists>e w'. generateDeployment env args w = (Inl e, w')
            \<and> files w' = files w
            \<and> filter mutates (trace w') = filter mutates (trace w)"
proof -
  from checks_abort [OF diff] obtain e w2
    where ab: "bnd (check_cowToken (settings_of pr) (cowToken_of pr))
                 (\<lambda>_. check_cowDao (settings_of pr) (cowDao_of pr)) w1 = (Inl e, w2)"
    by blast
  have run: "generateDeployment env args w = (Inl e, w2)"
    unfolding generateDeployment_after_prepare [OF prep] by (rule bnd_Inl) (rule ab)
  from quietD [OF quiet_prepare prep] quietD [OF quiet_checks ab]
  have "files w2 = files w \<and> filter mutates (trace w2) = filter mutates (trace w)" by simp
  with run show ?thesis by blast
qed

theorem mismatch_aborts_before_output_witness:
  "expected_differs (sample_settings (obj []) (expecting ''0xbbbC'') sample_bridge)
     ''cowDao'' ''0xBBBB''
   \<and> (\<exists>e w'. generateDeployment
                 (sample_env (sample_settings (obj []) (expecting ''0xbbbC'') sample_bridge))
                 sample_args sample_world = (Inl e, w')
             \<and> files w' = files sample_world
             \<and> filter mutates (trace w') = filter mutates (trace sample_world))"
proof -
  have diff: "expected_differs (sample_settings (obj []) (expecting ''0xbbbC'') sample_bridge)
      ''cowDao'' ''0xBBBB''"
    by (simp add: expected_differs_def expectedAddress_def get_prop_def sample_defs
        toLowerCase_def lower_char_def)
  from mismatch_aborts_before_output [OF sample_prepare] diff show ?thesis
    by (simp add: sample_prepared_def)
qed

subsection \<open>A comparison that passes\<close>

lemma check_cowToken_absent:
  assumes "expected_absent s ''cowToken''"
  shows "check_cowToken s a w =
     (Inr (), w\<lparr>trace := trace w
        @ [Console_warn ''settings.cowToken.expectedAddress was not defined'']\<rparr>)"
  using assms
  by (auto simp: expected_absent_def expectedAddress_def check_cowToken_def bnd_def lift_def
      emit_def split: sum.splits)

lemma check_cowToken_matches:
  assumes "expected_matches s ''cowToken'' a"
  shows "check_cowToken s a w = (Inr (), w)"
  using assms
  by (auto simp: expected_matches_def expectedAddress_def check_cowToken_def bnd_def lift_def
      ret_def split: sum.splits jsval.splits)

lemma check_cowDao_absent:
  assumes "expected_absent s ''cowDao''"
  shows "check_cowDao s a w =
     (Inr (), w\<lparr>trace := trace w
        @ [Console_warn ''settings.cowDao.expectedAddress was not defined'']\<rparr>)"
  using assms
  by (auto simp: expected_absent_def expectedAddress_def check_cowDao_def bnd_def lift_def
      emit_def split: sum.splits)

lemma check_cowDao_matches:
  assumes "expected_matches s ''cowDao'' a"
  shows "check_cowDao s a w = (Inr (), w)"
  using assms
  by (auto simp: expected_matches_def expectedAddress_def check_cowDao_def bnd_def lift_def
      ret_def split: sum.splits jsval.splits)

lemma absent_not_matches: "expected_absent s n \<Longrightarrow> \<not> expected_matches s n a"
  by (simp add: expected_absent_def expected_matches_def)

lemma compared_not_missing:
  assumes "expected_absent s n \<or> expected_matches s n a"
  shows "\<not> missing s"
  using assms
  by (auto simp: expected_absent_def expected_matches_def expectedAddress_def get_prop_def
      missing_def)

text \<open>
  When both comparisons pass, the run goes on with the rest of the task, in a world that
  differs from the one before the comparisons by the warnings only.
\<close>

lemma run_after_checks:
  assumes prep: "prepare env args w = (Inr pr, w1)"
    and tok: "expected_absent (settings_of pr) ''cowToken''
              \<or> expected_matches (settings_of pr) ''cowToken'' (cowToken_of pr)"
    and dao: "expected_absent (settings_of pr) ''cowDao''
              \<or> expected_matches (settings_of pr) ''cowDao'' (cowDao_of pr)"
  shows "generateDeployment env args w =
     assemble_deploy_save env pr (w1\<lparr>trace := trace w1 @ warnings (settings_of pr)\<rparr>)"
proof -
  let ?s = "settings_of pr"
  let ?wt = "w1\<lparr>trace := trace w1
           @ (if expected_absent ?s ''cowToken''
              then [Console_warn ''settings.cowToken.expectedAddress was not defined'']
              else [])\<rparr>"
  have t: "check_cowToken ?s (cowToken_of pr) w1 = (Inr (), ?wt)"
    using tok check_cowToken_absent [of ?s "cowToken_of pr" w1]
      check_cowToken_matches [of ?s "cowToken_of pr" w1] absent_not_matches [of ?s]
    by auto
  let ?wd = "?wt\<lparr>trace := trace ?wt
           @ (if expected_absent ?s ''cowDao''
              then [Console_warn ''settings.cowDao.expectedAddress was not defined'']
              else [])\<rparr>"
  have d: "check_cowDao ?s (cowDao_of pr) ?wt = (Inr (), ?wd)"
    using dao check_cowDao_absent [of ?s "cowDao_of pr" ?wt]
      check_cowDao_matches [of ?s "cowDao_of pr" ?wt] absent_not_matches [of ?s]
    by auto
  have "generateDeployment env args w = assemble_deploy_save env pr ?wd"
    by (simp add: generateDeployment_def bnd_def prep t d)
  then show ?thesis by (simp add: warnings_def)
qed

section \<open>The deployment parameters\<close>

lemma replicate_16: "replicate 16 c = [c, c, c, c, c, c, c, c, c, c, c, c, c, c, c, c]"
  by (simp add: eval_nat_numeral)

lemma parseUnits_native: "parseUnits ''0.15'' 18 = Inr 150000000000000000"
  by (simp add: parseUnits_def is_digit_def trim_trailing_zeros_def digits_value_def Let_def
      replicate_16)

lemma deploymentHelperParameters_eq:
  "deploymentHelperParameters env pr =
     (if missing (settings_of pr) then Inl (TypeError ''bridge'')
      else if missing (prop_or_undefined (settings_of pr) ''bridge'')
      then Inl (TypeError ''multiTokenMediatorGnosisChain'')
      else if missing (prop_or_undefined (settings_of pr) ''virtualCowToken'')
      then Inl (TypeError ''gnoPrice'')
      else Inr \<lparr>foreignToken = cowToken_of pr,
          multiTokenMediatorGnosisChain =
            prop_or_undefined (prop_or_undefined (settings_of pr) ''bridge'')
              ''multiTokenMediatorGnosisChain'',
          merkleRoot = merkleRoot_of pr,
          communityFundsTarget = cowDao_of pr,
          gnoToken = table_entry (defaultTokens_gno env) (chainId_of pr),
          gnoPrice =
            prop_or_undefined (prop_or_undefined (settings_of pr) ''virtualCowToken'')
              ''gnoPrice'',
          nativeTokenPrice = 150000000000000000,
          wrappedNativeToken = table_entry (defaultTokens_weth env) (chainId_of pr)\<rparr>)"
  by (simp add: deploymentHelperParameters_def and_then_def get_prop_def missing_def
      prop_or_undefined_def parseUnits_native)

text \<open>
  C10. Whatever the settings document and the claims are, when the parameters are
  assembled their \<^verbatim>\<open>nativeTokenPrice\<close> is \<^verbatim>\<open>parseUnits("0.15", 18)\<close>, which is
  150000000000000000; the settings document has no part in it.
\<close>

theorem nativeTokenPrice_fixed:
  assumes "deploymentHelperParameters env pr = Inr ps"
  shows "nativeTokenPrice ps = 150000000000000000
       \<and> parseUnits ''0.15'' 18 = Inr (nativeTokenPrice ps)"
  using assms
  by (auto simp: deploymentHelperParameters_eq parseUnits_native split: if_splits)

lemma sample_parameters:
  "deploymentHelperParameters (sample_env d)
       (sample_prepared (sample_settings (obj []) (obj []) sample_bridge)) =
     Inr \<lparr>foreignToken = ''0xAAAA'',
          multiTokenMediatorGnosisChain = JStr ''0x4D1'',
          merkleRoot = sample_leaf ''0xC1'',
          communityFundsTarget = ''0xBBBB'',
          gnoToken = JStr ''0x6E0'',
          gnoPrice = JStr ''1000'',
          nativeTokenPrice = 150000000000000000,
          wrappedNativeToken = JStr ''0xE91''\<rparr>"
  by (simp add: deploymentHelperParameters_eq missing_def prop_or_undefined_def table_entry_def
      sample_prepared_def sample_defs)

theorem nativeTokenPrice_fixed_witness:
  "nativeTokenPrice
     \<lparr>foreignToken = ''0xAAAA'',
      multiTokenMediatorGnosisChain = JStr ''0x4D1'',
      merkleRoot = sample_leaf ''0xC1'',
      communityFundsTarget = ''0xBBBB'',
      gnoToken = JStr ''0x6E0'',
      gnoPrice = JStr ''1000'',
      nativeTokenPrice = 150000000000000000,
      wrappedNativeToken = JStr ''0xE91''\<rparr> = 150000000000000000
   \<and> parseUnits ''0.15'' 18 = Inr 150000000000000000"
  using nativeTokenPrice_fixed [OF sample_parameters [of "obj []"]] by simp

text \<open>
  C7, as the code has it. The stage that assembles the parameters validates no field.
  Take a run that has reached it: the inputs are read, the addresses predicted, and both
  comparisons have passed. If the \<^verbatim>\<open>bridge\<close> section of the settings document is missing,
  the run aborts there with the \<^verbatim>\<open>TypeError\<close> of reading
  \<^verbatim>\<open>multiTokenMediatorGnosisChain\<close>; if it is there and the \<^verbatim>\<open>virtualCowToken\<close> section is
  missing, with the \<^verbatim>\<open>TypeError\<close> of reading \<^verbatim>\<open>gnoPrice\<close>. If both sections are there the
  stage succeeds, also when \<^verbatim>\<open>bridge.multiTokenMediatorGnosisChain\<close> or
  \<^verbatim>\<open>virtualCowToken.gnoPrice\<close> is missing: the parameter then is \<^verbatim>\<open>undefined\<close>, and the run
  goes on to deploy the contract with these parameters.
\<close>

theorem assembler_checks_no_field:
  assumes prep: "prepare env args w = (Inr pr, w1)"
    and tok: "expected_absent (settings_of pr) ''cowToken''
              \<or> expected_matches (settings_of pr) ''cowToken'' (cowToken_of pr)"
    and dao: "expected_absent (settings_of pr) ''cowDao''
              \<or> expected_matches (settings_of pr) ''cowDao'' (cowDao_of pr)"
  shows
   "(missing (prop_or_undefined (settings_of pr) ''bridge'')
     \<longrightarrow> deploymentHelperParameters env pr = Inl (TypeError ''multiTokenMediatorGnosisChain'')
       \<and> generateDeployment env args w =
           (Inl (TypeError ''multiTokenMediatorGnosisChain''),
            w1\<lparr>trace := trace w1 @ warnings (settings_of pr)\<rparr>))
  \<and> (\<not> missing (prop_or_undefined (settings_of pr) ''bridge'')
     \<and> missing (prop_or_undefined (settings_of pr) ''virtualCowToken'')
     \<longrightarrow> deploymentHelperParameters env pr = Inl (TypeError ''gnoPrice'')
       \<and> generateDeployment env args w =
           (Inl (TypeError ''gnoPrice''),
            w1\<lparr>trace := trace w1 @ warnings (settings_of pr)\<rparr>))
  \<and> (\<not> missing (prop_or_undefined (settings_of pr) ''bridge'')
     \<and> \<not> missing (prop_or_undefined (settings_of pr) ''virtualCowToken'')
     \<longrightarrow> deploymentHelperParameters env pr =
           Inr \<lparr>foreignToken = cowToken_of pr,
                multiTokenMediatorGnosisChain =
                  prop_or_undefined (prop_or_undefined (settings_of pr) ''bridge'')
                    ''multiTokenMediatorGnosisChain'',
                merkleRoot = merkleRoot_of pr,
                communityFundsTarget = cowDao_of pr,
                gnoToken = table_entry (defaultTokens_gno env) (chainId_of pr),
                gnoPrice =
                  prop_or_undefined (prop_or_undefined (settings_of pr) ''virtualCowToken'')
                    ''gnoPrice'',
                nativeTokenPrice = 150000000000000000,
                wrappedNativeToken = table_entry (defaultTokens_weth env) (chainId_of pr)\<rparr>
       \<and> generateDeployment env args w =
           bnd (deploy_contract env
                 \<lparr>foreignToken = cowToken_of pr,
                  multiTokenMediatorGnosisChain =
                    prop_or_undefined (prop_or_undefined (settings_of pr) ''bridge'')
                      ''multiTokenMediatorGnosisChain'',
                  merkleRoot = merkleRoot_of pr,
                  communityFundsTarget = cowDao_of pr,
                  gnoToken = table_entry (defaultTokens_gno env) (chainId_of pr),
                  gnoPrice =
                    prop_or_undefined (prop_or_undefined (settings_of pr) ''virtualCowToken'')
                      ''gnoPrice'',
                  nativeTokenPrice = 150000000000000000,
                  wrappedNativeToken = table_entry (defaultTokens_weth env) (chainId_of pr)\<rparr>)
               (\<lambda>address. save_output env (claimsWithProof_of pr) address)
             (w1\<lparr>trace := trace w1 @ warnings (settings_of pr)\<rparr>))"
proof -
  from compared_not_missing [OF tok] have present: "\<not> missing (settings_of pr)" .
  show ?thesis
    using present
    by (simp add: run_after_checks [OF prep tok dao] assemble_deploy_save_def bnd_def lift_def
        deploymentHelperParameters_eq)
qed

text \<open>
  A settings document whose \<^verbatim>\<open>bridge\<close> section is the empty object: the field
  \<^verbatim>\<open>bridge.multiTokenMediatorGnosisChain\<close> is missing, and the stage returns parameters.
\<close>

theorem missing_mediator_is_accepted:
  "deploymentHelperParameters (sample_env (obj []))
       (sample_prepared (sample_settings (obj []) (obj []) (obj []))) =
     Inr \<lparr>foreignToken = ''0xAAAA'',
          multiTokenMediatorGnosisChain = JUndefined,
          merkleRoot = sample_leaf ''0xC1'',
          communityFundsTarget = ''0xBBBB'',
          gnoToken = JStr ''0x6E0'',
          gnoPrice = JStr ''1000'',
          nativeTokenPrice = 150000000000000000,
          wrappedNativeToken = JStr ''0xE91''\<rparr>"
  by (simp add: deploymentHelperParameters_eq missing_def prop_or_undefined_def table_entry_def
      sample_prepared_def sample_defs)

text \<open>
  Two runs in the concrete environment, both with no expected address. In the first the
  settings document has no \<^verbatim>\<open>bridge\<close> member: the run aborts after the two warnings. In
  the second the \<^verbatim>\<open>bridge\<close> section is the empty object: the parameters are assembled.
\<close>

theorem assembler_checks_no_field_witness:
  "generateDeployment
      (sample_env (obj [(''cowToken'', obj []), (''cowDao'', obj []),
                        (''virtualCowToken'', obj [(''gnoPrice'', JStr ''1000'')])]))
      sample_args sample_world =
     (Inl (TypeError ''multiTokenMediatorGnosisChain''),
      sample_world\<lparr>trace :=
        [Call_getSigners, Call_getNetwork, Fs (ReadFile ''settings.json''),
         Console_log ''Using deployer 0xD1'',
         Console_log ''Reading user claims for gnosis chain from file...'',
         Call_parseCsvFile ''claims.csv'',
         Console_log ''Generating Merkle proofs...'',
         sample_proposal_call
           (obj [(''cowToken'', obj []), (''cowDao'', obj []),
                 (''virtualCowToken'', obj [(''gnoPrice'', JStr ''1000'')])]),
         Console_warn ''settings.cowToken.expectedAddress was not defined'',
         Console_warn ''settings.cowDao.expectedAddress was not defined'']\<rparr>)
   \<and> deploymentHelperParameters
        (sample_env (sample_settings (obj []) (obj []) (obj [])))
        (sample_prepared (sample_settings (obj []) (obj []) (obj []))) =
       Inr \<lparr>foreignToken = ''0xAAAA'',
            multiTokenMediatorGnosisChain = JUndefined,
            merkleRoot = sample_leaf ''0xC1'',
            communityFundsTarget = ''0xBBBB'',
            gnoToken = JStr ''0x6E0'',
            gnoPrice = JStr ''1000'',
            nativeTokenPrice = 150000000000000000,
            wrappedNativeToken = JStr ''0xE91''\<rparr>"
proof -
  let ?d1 = "obj [(''cowToken'', obj []), (''cowDao'', obj []),
                  (''virtualCowToken'', obj [(''gnoPrice'', JStr ''1000'')])]"
  let ?d2 = "sample_settings (obj []) (obj []) (obj [])"
  have absent1: "expected_absent (settings_of (sample_prepared ?d1)) ''cowToken''"
      "expected_absent (settings_of (sample_prepared ?d1)) ''cowDao''"
    and absent2: "expected_absent (settings_of (sample_prepared ?d2)) ''cowToken''"
      "expected_absent (settings_of (sample_prepared ?d2)) ''cowDao''"
    by (simp_all add: expected_absent_def expectedAddress_def get_prop_def sample_prepared_def
        sample_defs)
  have no_bridge: "missing (prop_or_undefined (settings_of (sample_prepared ?d1)) ''bridge'')"
    by (simp add: missing_def prop_or_undefined_def sample_prepared_def obj_def)
  have sections: "\<not> missing (prop_or_undefined (settings_of (sample_prepared ?d2)) ''bridge'')"
      "\<not> missing (prop_or_undefined (settings_of (sample_prepared ?d2)) ''virtualCowToken'')"
    by (simp_all add: missing_def prop_or_undefined_def sample_prepared_def sample_defs)
  from assembler_checks_no_field [OF sample_prepare, of ?d1] absent1 no_bridge
  have first: "generateDeployment (sample_env ?d1) sample_args sample_world =
     (Inl (TypeError ''multiTokenMediatorGnosisChain''),
      sample_world\<lparr>trace :=
        [Call_getSigners, Call_getNetwork, Fs (ReadFile ''settings.json''),
         Console_log ''Using deployer 0xD1'',
         Console_log ''Reading user claims for gnosis chain from file...'',
         Call_parseCsvFile ''claims.csv'',
         Console_log ''Generating Merkle proofs...'',
         sample_proposal_call ?d1,
         Console_warn ''settings.cowToken.expectedAddress was not defined'',
         Console_warn ''settings.cowDao.expectedAddress was not defined'']\<rparr>)"
    by (simp add: warnings_def)
  from assembler_checks_no_field [OF sample_prepare, of ?d2] absent2 sections
  have "deploymentHelperParameters (sample_env ?d2) (sample_prepared ?d2) =
       Inr \<lparr>foreignToken = cowToken_of (sample_prepared ?d2),
            multiTokenMediatorGnosisChain =
              prop_or_undefined (prop_or_undefined (settings_of (sample_prepared ?d2)) ''bridge'')
                ''multiTokenMediatorGnosisChain'',
            merkleRoot = merkleRoot_of (sample_prepared ?d2),
            communityFundsTarget = cowDao_of (sample_prepared ?d2),
            gnoToken = table_entry (defaultTokens_gno (sample_env ?d2))
                         (chainId_of (sample_prepared ?d2)),
            gnoPrice =
              prop_or_undefined
                (prop_or_undefined (settings_of (sample_prepared ?d2)) ''virtualCowToken'')
                ''gnoPrice'',
            nativeTokenPrice = 150000000000000000,
            wrappedNativeToken = table_entry (defaultTokens_weth (sample_env ?d2))
                                   (chainId_of (sample_prepared ?d2))\<rparr>"
    by blast
  then have second: "deploymentHelperParameters (sample_env ?d2) (sample_prepared ?d2) =
       Inr \<lparr>foreignToken = ''0xAAAA'',
            multiTokenMediatorGnosisChain = JUndefined,
            merkleRoot = sample_leaf ''0xC1'',
            communityFundsTarget = ''0xBBBB'',
            gnoToken = JStr ''0x6E0'',
            gnoPrice = JStr ''1000'',
            nativeTokenPrice = 150000000000000000,
            wrappedNativeToken = JStr ''0xE91''\<rparr>"
    by (simp add: prop_or_undefined_def table_entry_def sample_prepared_def sample_defs)
  from first second show ?thesis by (rule conjI)
qed

section \<open>An absent expected address\<close>

text \<open>
  C8, as the code has it. Take a run that has read its inputs and predicted the two
  addresses, and in whose settings document each of the two expected addresses is absent
  or matches the predicted one. For each contract whose expected address is absent the
  run prints the warning for that contract, \<^verbatim>\<open>cowToken\<close> first, and does not stop there:
  it goes on to assemble the parameters, from a world that differs from the one before
  the comparisons by the warnings only. If, further, the parameters are assembled, the
  contract factory is found, the constructor arguments are built, the deployment succeeds
  and no file operation fails, the run returns: after the warnings it has printed the
  parameters, deployed, cleared the old files and written \<^verbatim>\<open>addresses.json\<close>,
  \<^verbatim>\<open>claims.json\<close> and the shards.
\<close>

theorem absent_warns_and_proceeds:
  assumes prep: "prepare env args w = (Inr pr, w1)"
    and tok: "expected_absent (settings_of pr) ''cowToken''
              \<or> expected_matches (settings_of pr) ''cowToken'' (cowToken_of pr)"
    and dao: "expected_absent (settings_of pr) ''cowDao''
              \<or> expected_matches (settings_of pr) ''cowDao'' (cowDao_of pr)"
  shows
   "generateDeployment env args w =
      assemble_deploy_save env pr (w1\<lparr>trace := trace w1 @ warnings (settings_of pr)\<rparr>)
  \<and> (deploymentHelperParameters env pr = Inr ps
     \<and> getContractFactory env ''BridgedTokenDeployer'' = None
     \<and> constructorInput env ps = Inr input
     \<and> deploy env input = Inr address
     \<and> (\<forall>op fs. fs_error env op fs = None)
     \<and> removeSplitClaimFiles env OUTPUT_FOLDER_GC
          (rm_tree (OUTPUT_FOLDER_GC @ ''/params.json'')
             (rm_tree (OUTPUT_FOLDER_GC @ ''/claims.json'') (files w))) = Inr cleared
     \<and> splitClaimsAndSaveToFolder env (claimsWithProof_of pr) OUTPUT_FOLDER_GC
          (cleared(OUTPUT_FOLDER_GC @ ''/addresses.json'' \<mapsto> JSON_stringify_string env address,
                   OUTPUT_FOLDER_GC @ ''/claims.json'' \<mapsto>
                     JSON_stringify_claims env (claimsWithProof_of pr))) = Inr saved
     \<longrightarrow> generateDeployment env args w =
          (Inr (),
           w1\<lparr>files := saved,
              trace := trace w1 @ warnings (settings_of pr) @
               [Console_log_params ''The following deployment parameters will be used'' ps,
                Call_getContractFactory ''BridgedTokenDeployer'',
                Call_deploy,
                Console_log ''Clearing old files...'',
                Fs (Rm (OUTPUT_FOLDER_GC @ ''/claims.json'')),
                Fs (Rm (OUTPUT_FOLDER_GC @ ''/params.json'')),
                Call_removeSplitClaimFiles OUTPUT_FOLDER_GC,
                Console_log ''Saving generated data to file...'',
                Fs (Mkdir OUTPUT_FOLDER_GC),
                Fs (WriteFile (OUTPUT_FOLDER_GC @ ''/addresses.json'')
                      (JSON_stringify_string env address)),
                Fs (WriteFile (OUTPUT_FOLDER_GC @ ''/claims.json'')
                      (JSON_stringify_claims env (claimsWithProof_of pr))),
                Call_splitClaimsAndSaveToFolder OUTPUT_FOLDER_GC]\<rparr>))"
proof (intro conjI impI)
  show run: "generateDeployment env args w =
      assemble_deploy_save env pr (w1\<lparr>trace := trace w1 @ warnings (settings_of pr)\<rparr>)"
    by (rule run_after_checks [OF prep tok dao])
  assume ok: "deploymentHelperParameters env pr = Inr ps
     \<and> getContractFactory env ''BridgedTokenDeployer'' = None
     \<and> constructorInput env ps = Inr input
     \<and> deploy env input = Inr address
     \<and> (\<forall>op fs. fs_error env op fs = None)
     \<and> removeSplitClaimFiles env OUTPUT_FOLDER_GC
          (rm_tree (OUTPUT_FOLDER_GC @ ''/params.json'')
             (rm_tree (OUTPUT_FOLDER_GC @ ''/claims.json'') (files w))) = Inr cleared
     \<and> splitClaimsAndSaveToFolder env (claimsWithProof_of pr) OUTPUT_FOLDER_GC
          (cleared(OUTPUT_FOLDER_GC @ ''/addresses.json'' \<mapsto> JSON_stringify_string env address,
                   OUTPUT_FOLDER_GC @ ''/claims.json'' \<mapsto>
                     JSON_stringify_claims env (claimsWithProof_of pr))) = Inr saved"
  from quietD [OF quiet_prepare prep] have same: "files w1 = files w" by simp
  from ok same show "generateDeployment env args w =
          (Inr (),
           w1\<lparr>files := saved,
              trace := trace w1 @ warnings (settings_of pr) @
               [Console_log_params ''The following deployment parameters will be used'' ps,
                Call_getContractFactory ''BridgedTokenDeployer'',
                Call_deploy,
                Console_log ''Clearing old files...'',
                Fs (Rm (OUTPUT_FOLDER_GC @ ''/claims.json'')),
                Fs (Rm (OUTPUT_FOLDER_GC @ ''/params.json'')),
                Call_removeSplitClaimFiles OUTPUT_FOLDER_GC,
                Console_log ''Saving generated data to file...'',
                Fs (Mkdir OUTPUT_FOLDER_GC),
                Fs (WriteFile (OUTPUT_FOLDER_GC @ ''/addresses.json'')
                      (JSON_stringify_string env address)),
                Fs (WriteFile (OUTPUT_FOLDER_GC @ ''/claims.json'')
                      (JSON_stringify_claims env (claimsWithProof_of pr))),
                Call_splitClaimsAndSaveToFolder OUTPUT_FOLDER_GC]\<rparr>)"
    unfolding run
    by (simp add: assemble_deploy_save_def deploy_contract_def save_output_def run_defs Let_def)
qed

text \<open>
  A run in the concrete environment: the expected address of \<^verbatim>\<open>cowToken\<close> is the predicted
  one in another case, the one of \<^verbatim>\<open>cowDao\<close> is absent. The run prints the warning for
  \<^verbatim>\<open>cowDao\<close> only, returns, and has replaced the old shard by the new one.
\<close>

theorem absent_warns_and_proceeds_witness:
  "expected_matches (sample_settings (expecting ''0xaaaa'') (obj []) sample_bridge)
      ''cowToken'' ''0xAAAA''
   \<and> expected_absent (sample_settings (expecting ''0xaaaa'') (obj []) sample_bridge) ''cowDao''
   \<and> fst (generateDeployment
            (sample_env (sample_settings (expecting ''0xaaaa'') (obj []) sample_bridge))
            sample_args sample_world) = Inr ()
   \<and> filter (\<lambda>ev. case ev of Console_warn m \<Rightarrow> True | _ \<Rightarrow> False)
        (trace (snd (generateDeployment
           (sample_env (sample_settings (expecting ''0xaaaa'') (obj []) sample_bridge))
           sample_args sample_world))) =
       [Console_warn ''settings.cowDao.expectedAddress was not defined'']
   \<and> files (snd (generateDeployment
           (sample_env (sample_settings (expecting ''0xaaaa'') (obj []) sample_bridge))
           sample_args sample_world)) ''./output/deployment-gc/addresses.json''
       = Some (CHR 0x22 # ''0xDE9'' @ [CHR 0x22])
   \<and> files (snd (generateDeployment
           (sample_env (sample_settings (expecting ''0xaaaa'') (obj []) sample_bridge))
           sample_args sample_world)) ''./output/deployment-gc/chunks/0.json''
       = Some ''0xC1''
   \<and> files (snd (generateDeployment
           (sample_env (sample_settings (expecting ''0xaaaa'') (obj []) sample_bridge))
           sample_args sample_world)) ''./output/deployment-gc/chunks/7.json''
       = None"
proof -
  let ?doc = "sample_settings (expecting ''0xaaaa'') (obj []) sample_bridge"
  let ?env = "sample_env ?doc"
  let ?ps = "\<lparr>foreignToken = ''0xAAAA'',
          multiTokenMediatorGnosisChain = JStr ''0x4D1'',
          merkleRoot = sample_leaf ''0xC1'',
          communityFundsTarget = ''0xBBBB'',
          gnoToken = JStr ''0x6E0'',
          gnoPrice = JStr ''1000'',
          nativeTokenPrice = 150000000000000000,
          wrappedNativeToken = JStr ''0xE91''\<rparr>"
  let ?cleared = "rm_tree (OUTPUT_FOLDER_GC @ ''/chunks'')
      (rm_tree (OUTPUT_FOLDER_GC @ ''/params.json'')
         (rm_tree (OUTPUT_FOLDER_GC @ ''/claims.json'') (files sample_world)))"
  let ?saved = "write_shards 0 [''0xC1''] OUTPUT_FOLDER_GC
      (?cleared(OUTPUT_FOLDER_GC @ ''/addresses.json'' \<mapsto> CHR 0x22 # ''0xDE9'' @ [CHR 0x22],
                OUTPUT_FOLDER_GC @ ''/claims.json'' \<mapsto> ''0xC1''))"
  have tok: "expected_matches (settings_of (sample_prepared ?doc)) ''cowToken''
      (cowToken_of (sample_prepared ?doc))"
    by (simp add: expected_matches_def expectedAddress_def get_prop_def sample_prepared_def
        sample_defs toLowerCase_def lower_char_def)
  have dao: "expected_absent (settings_of (sample_prepared ?doc)) ''cowDao''"
    by (simp add: expected_absent_def expectedAddress_def get_prop_def sample_prepared_def
        sample_defs)
  have not_tok: "\<not> expected_absent (settings_of (sample_prepared ?doc)) ''cowToken''"
    by (simp add: expected_absent_def expectedAddress_def get_prop_def sample_prepared_def
        sample_defs)
  have ps: "deploymentHelperParameters ?env (sample_prepared ?doc) = Inr ?ps"
    by (simp add: deploymentHelperParameters_eq missing_def prop_or_undefined_def
        table_entry_def sample_prepared_def sample_defs)
  have env: "getContractFactory ?env ''BridgedTokenDeployer'' = None"
      "constructorInput ?env ?ps = Inr ?ps"
      "deploy ?env ?ps = Inr ''0xDE9''"
      "\<forall>op fs. fs_error ?env op fs = None"
      "removeSplitClaimFiles ?env OUTPUT_FOLDER_GC
          (rm_tree (OUTPUT_FOLDER_GC @ ''/params.json'')
             (rm_tree (OUTPUT_FOLDER_GC @ ''/claims.json'') (files sample_world))) = Inr ?cleared"
      "splitClaimsAndSaveToFolder ?env (claimsWithProof_of (sample_prepared ?doc))
          OUTPUT_FOLDER_GC
          (?cleared(OUTPUT_FOLDER_GC @ ''/addresses.json'' \<mapsto>
                      JSON_stringify_string ?env ''0xDE9'',
                    OUTPUT_FOLDER_GC @ ''/claims.json'' \<mapsto>
                      JSON_stringify_claims ?env (claimsWithProof_of (sample_prepared ?doc))))
        = Inr ?saved"
    by (simp_all add: sample_env_def sample_prepared_def)
  have succeed: "deploymentHelperParameters ?env (sample_prepared ?doc) = Inr ?ps
     \<and> getContractFactory ?env ''BridgedTokenDeployer'' = None
     \<and> constructorInput ?env ?ps = Inr ?ps
     \<and> deploy ?env ?ps = Inr ''0xDE9''
     \<and> (\<forall>op fs. fs_error ?env op fs = None)
     \<and> removeSplitClaimFiles ?env OUTPUT_FOLDER_GC
          (rm_tree (OUTPUT_FOLDER_GC @ ''/params.json'')
             (rm_tree (OUTPUT_FOLDER_GC @ ''/claims.json'') (files sample_world))) = Inr ?cleared
     \<and> splitClaimsAndSaveToFolder ?env (claimsWithProof_of (sample_prepared ?doc))
          OUTPUT_FOLDER_GC
          (?cleared(OUTPUT_FOLDER_GC @ ''/addresses.json'' \<mapsto>
                      JSON_stringify_string ?env ''0xDE9'',
                    OUTPUT_FOLDER_GC @ ''/claims.json'' \<mapsto>
                      JSON_stringify_claims ?env (claimsWithProof_of (sample_prepared ?doc))))
        = Inr ?saved"
    by (intro conjI ps env)
  note run = absent_warns_and_proceeds
    [where env = ?env and pr = "sample_prepared ?doc" and ps = ?ps and input = ?ps
       and address = "''0xDE9''" and cleared = ?cleared and saved = ?saved,
     OF sample_prepare disjI2 [OF tok] disjI1 [OF dao], THEN conjunct2, THEN mp, OF succeed]
  have tok': "expected_matches ?doc ''cowToken'' ''0xAAAA''"
    and dao': "expected_absent ?doc ''cowDao''"
    using tok dao by (simp_all add: sample_prepared_def)
  from tok' dao' not_tok show ?thesis
    unfolding run
    by (simp add: warnings_def sample_prepared_def sample_world_def sample_proposal_call_def
        OUTPUT_FOLDER_GC_def rm_tree_def digits_0)
qed

text \<open>
  Two runs in the concrete environment. In the first the expected address of \<^verbatim>\<open>cowDao\<close> is
  absent and the one of \<^verbatim>\<open>cowToken\<close> is wrong: the run aborts on \<^verbatim>\<open>cowToken\<close>, with no
  warning for \<^verbatim>\<open>cowDao\<close>. In the second both are absent and \<^verbatim>\<open>bridge\<close> is \<^verbatim>\<open>null\<close>: the
  run prints both warnings and aborts where the parameters are assembled. Neither removes
  or writes a file.
\<close>

theorem absent_does_not_ensure_output:
  "expected_absent (sample_settings (expecting ''0xbbbC'') (obj []) sample_bridge) ''cowDao''
   \<and> generateDeployment
        (sample_env (sample_settings (expecting ''0xbbbC'') (obj []) sample_bridge))
        sample_args sample_world =
       (Inl (Error
          ''Expected cowToken address 0xbbbC does not coincide with calculated address 0xAAAA''),
        sample_world\<lparr>trace :=
          [Call_getSigners, Call_getNetwork, Fs (ReadFile ''settings.json''),
           Console_log ''Using deployer 0xD1'',
           Console_log ''Reading user claims for gnosis chain from file...'',
           Call_parseCsvFile ''claims.csv'',
           Console_log ''Generating Merkle proofs...'',
           sample_proposal_call
             (sample_settings (expecting ''0xbbbC'') (obj []) sample_bridge)]\<rparr>)
   \<and> expected_absent (sample_settings (obj []) (obj []) JNull) ''cowToken''
   \<and> expected_absent (sample_settings (obj []) (obj []) JNull) ''cowDao''
   \<and> generateDeployment (sample_env (sample_settings (obj []) (obj []) JNull))
        sample_args sample_world =
       (Inl (TypeError ''multiTokenMediatorGnosisChain''),
        sample_world\<lparr>trace :=
          [Call_getSigners, Call_getNetwork, Fs (ReadFile ''settings.json''),
           Console_log ''Using deployer 0xD1'',
           Console_log ''Reading user claims for gnosis chain from file...'',
           Call_parseCsvFile ''claims.csv'',
           Console_log ''Generating Merkle proofs...'',
           sample_proposal_call (sample_settings (obj []) (obj []) JNull),
           Console_warn ''settings.cowToken.expectedAddress was not defined'',
           Console_warn ''settings.cowDao.expectedAddress was not defined'']\<rparr>)"
  by (simp add: generateDeployment_def assemble_deploy_save_def bnd_def sample_prepare
      check_cowToken_def check_cowDao_def deploymentHelperParameters_def and_then_def lift_def
      throw_def emit_def expected_absent_def expectedAddress_def get_prop_def
      sample_prepared_def sample_settings_def expecting_def sample_bridge_def obj_def
      toLowerCase_def lower_char_def)

section \<open>The settings handed to the address prediction\<close>

lemma dummySettings_same:
  assumes "\<forall>k. k \<noteq> ''virtualCowToken'' \<and> k \<noteq> ''multiTokenMediatorGnosisChain''
             \<longrightarrow> own_props s1 k = own_props s2 k"
  shows "dummySettings env s1 = dummySettings env s2"
  using assms by (auto simp: dummySettings_def spread_with_def fun_eq_iff)

lemma dummySettings_members:
  "own_props (dummySettings env s) k =
     (if k = ''multiTokenMediatorGnosisChain'' then Some (JStr AddressZero)
      else if k = ''virtualCowToken'' then Some (dummyVirtualTokenCreationSettings env)
      else own_props s k)"
  by (simp add: dummySettings_def spread_with_def)

lemma dummySettings_other_parse:
  "dummySettings (env\<lparr>JSON_parse := parse\<rparr>) s = dummySettings env s"
  by (simp add: dummySettings_def)

text \<open>What a run has handed to \<^verbatim>\<open>generateProposal\<close> when it has predicted the addresses.\<close>

lemma prepare_handed:
  assumes "prepare env args w = (Inr pr, w1)"
  shows "\<exists>safe.
       defaultSafeDeploymentAddresses env ''100'' = Inr safe
     \<and> filter is_generateProposal (trace w1) =
         filter is_generateProposal (trace w) @
         [Call_generateProposal (dummySettings env (settings_of pr))
            (spread_with safe [(''forwarder'', JStr AddressZero)])
            (spread_with safe [(''forwarder'', JStr AddressZero)])]
     \<and> generateProposal env (dummySettings env (settings_of pr))
          (spread_with safe [(''forwarder'', JStr AddressZero)])
          (spread_with safe [(''forwarder'', JStr AddressZero)])
        = Inr (cowToken_of pr, cowDao_of pr)"
  using assms
  by (auto simp: prepare_def run_defs Let_def
      split: option.splits sum.splits list.splits if_splits prod.splits)

text \<open>After the prediction, the rest of the task records no call of \<^verbatim>\<open>generateProposal\<close>.\<close>

definition no_proposal_call :: "'x run \<Rightarrow> bool" where
  "no_proposal_call m =
     (\<forall>w. filter is_generateProposal (trace (snd (m w))) = filter is_generateProposal (trace w))"

lemma no_call_ret: "no_proposal_call (ret x)"
  by (simp add: no_proposal_call_def ret_def)

lemma no_call_throw: "no_proposal_call (throw e)"
  by (simp add: no_proposal_call_def throw_def)

lemma no_call_lift: "no_proposal_call (lift r)"
  by (simp add: no_proposal_call_def lift_def)

lemma no_call_emit: "\<not> is_generateProposal ev \<Longrightarrow> no_proposal_call (emit ev)"
  by (simp add: no_proposal_call_def emit_def)

lemma no_call_bnd:
  assumes m: "no_proposal_call m" and k: "\<And>x. no_proposal_call (k x)"
  shows "no_proposal_call (bnd m k)"
  unfolding no_proposal_call_def
proof
  fix w
  obtain r1 w1 where m1: "m w = (r1, w1)" by (cases "m w")
  from m have q1: "filter is_generateProposal (trace w1) = filter is_generateProposal (trace w)"
    unfolding no_proposal_call_def using m1 by (metis snd_conv)
  show "filter is_generateProposal (trace (snd (bnd m k w)))
      = filter is_generateProposal (trace w)"
  proof (cases r1)
    case (Inl e)
    with m1 q1 show ?thesis by (simp add: bnd_def)
  next
    case (Inr x)
    from k [of x] have "filter is_generateProposal (trace (snd (k x w1)))
        = filter is_generateProposal (trace w1)"
      unfolding no_proposal_call_def by blast
    with Inr m1 q1 show ?thesis by (simp add: bnd_def)
  qed
qed

lemma no_call_call: "\<not> is_generateProposal ev \<Longrightarrow> no_proposal_call (call ev r)"
  unfolding call_def by (intro no_call_bnd no_call_emit no_call_lift)

lemma no_call_fs_do: "no_proposal_call (fs_do env op)"
  by (simp add: no_proposal_call_def fs_do_def Let_def split: option.splits)

lemma no_call_fs_helper: "\<not> is_generateProposal ev \<Longrightarrow> no_proposal_call (fs_helper ev f)"
  by (simp add: no_proposal_call_def fs_helper_def Let_def split: sum.splits)

lemma no_call_check_cowToken: "no_proposal_call (check_cowToken s a)"
  unfolding check_cowToken_def
  by (auto intro!: no_call_bnd no_call_lift no_call_emit no_call_throw no_call_ret
      split: jsval.splits)

lemma no_call_check_cowDao: "no_proposal_call (check_cowDao s a)"
  unfolding check_cowDao_def
  by (auto intro!: no_call_bnd no_call_lift no_call_emit no_call_throw no_call_ret
      split: jsval.splits)

lemma no_call_deploy_contract: "no_proposal_call (deploy_contract env ps)"
  unfolding deploy_contract_def
  by (auto intro!: no_call_bnd no_call_lift no_call_emit no_call_call)

lemma no_call_save_output: "no_proposal_call (save_output env cwp address)"
  unfolding save_output_def
  by (auto intro!: no_call_bnd no_call_emit no_call_fs_do no_call_fs_helper)

lemma no_call_after_prepare:
  "no_proposal_call
     (bnd (check_cowToken (settings_of pr) (cowToken_of pr)) (\<lambda>_.
      bnd (check_cowDao (settings_of pr) (cowDao_of pr)) (\<lambda>_.
      assemble_deploy_save env pr)))"
  unfolding assemble_deploy_save_def
  by (intro no_call_bnd no_call_check_cowToken no_call_check_cowDao no_call_lift
      no_call_deploy_contract no_call_save_output)

lemma run_calls:
  assumes "prepare env args w = (Inr pr, w1)"
  shows "filter is_generateProposal (trace (snd (generateDeployment env args w)))
       = filter is_generateProposal (trace w1)"
proof -
  have "generateDeployment env args w =
      bnd (check_cowToken (settings_of pr) (cowToken_of pr)) (\<lambda>_.
      bnd (check_cowDao (settings_of pr) (cowDao_of pr)) (\<lambda>_.
      assemble_deploy_save env pr)) w1"
    using assms by (simp add: generateDeployment_def bnd_def)
  with no_call_after_prepare [of pr env] show ?thesis
    unfolding no_proposal_call_def by simp
qed

text \<open>
  C9, as the code has it. Take two runs that have predicted the addresses, in
  environments that differ at most in what the settings file parses to, and whose settings
  documents differ only in their members \<^verbatim>\<open>virtualCowToken\<close> and
  \<^verbatim>\<open>multiTokenMediatorGnosisChain\<close> (the member of the document itself, not the one of its
  \<^verbatim>\<open>bridge\<close> section). However the runs end, each calls \<^verbatim>\<open>generateProposal\<close> once, both
  with the same three arguments, and they predict the same addresses. In the settings
  handed over,
  \<^verbatim>\<open>virtualCowToken\<close> is the dummy and \<^verbatim>\<open>multiTokenMediatorGnosisChain\<close> the zero address;
  every other member, the \<^verbatim>\<open>bridge\<close> section among them, is that of the document.
\<close>

theorem predicted_addresses_ignore_two_members:
  assumes r1: "prepare env args1 wa = (Inr pr1, w1)"
    and r2: "prepare (env\<lparr>JSON_parse := parse2\<rparr>) args2 wb = (Inr pr2, w2)"
    and same: "\<forall>k. k \<noteq> ''virtualCowToken'' \<and> k \<noteq> ''multiTokenMediatorGnosisChain''
                \<longrightarrow> own_props (settings_of pr1) k = own_props (settings_of pr2) k"
  shows "\<exists>handed addresses addressesGC.
       filter is_generateProposal (trace (snd (generateDeployment env args1 wa))) =
         filter is_generateProposal (trace wa)
         @ [Call_generateProposal handed addresses addressesGC]
     \<and> filter is_generateProposal
         (trace (snd (generateDeployment (env\<lparr>JSON_parse := parse2\<rparr>) args2 wb))) =
         filter is_generateProposal (trace wb)
         @ [Call_generateProposal handed addresses addressesGC]
     \<and> generateProposal env handed addresses addressesGC = Inr (cowToken_of pr1, cowDao_of pr1)
     \<and> cowToken_of pr2 = cowToken_of pr1
     \<and> cowDao_of pr2 = cowDao_of pr1
     \<and> own_props handed ''virtualCowToken'' = Some (dummyVirtualTokenCreationSettings env)
     \<and> own_props handed ''multiTokenMediatorGnosisChain'' = Some (JStr AddressZero)
     \<and> (\<forall>k. k \<noteq> ''virtualCowToken'' \<and> k \<noteq> ''multiTokenMediatorGnosisChain''
            \<longrightarrow> own_props handed k = own_props (settings_of pr1) k)"
proof -
  let ?fw = "[(''forwarder'', JStr AddressZero)]"
  from prepare_handed [OF r1] obtain safe
    where s1: "defaultSafeDeploymentAddresses env ''100'' = Inr safe"
      and t1: "filter is_generateProposal (trace w1) =
         filter is_generateProposal (trace wa) @
         [Call_generateProposal (dummySettings env (settings_of pr1))
            (spread_with safe ?fw) (spread_with safe ?fw)]"
      and g1: "generateProposal env (dummySettings env (settings_of pr1))
          (spread_with safe ?fw) (spread_with safe ?fw) = Inr (cowToken_of pr1, cowDao_of pr1)"
    by blast
  from prepare_handed [OF r2] obtain safe2
    where s2: "defaultSafeDeploymentAddresses env ''100'' = Inr safe2"
      and t2: "filter is_generateProposal (trace w2) =
         filter is_generateProposal (trace wb) @
         [Call_generateProposal (dummySettings env (settings_of pr2))
            (spread_with safe2 ?fw) (spread_with safe2 ?fw)]"
      and g2: "generateProposal env (dummySettings env (settings_of pr2))
          (spread_with safe2 ?fw) (spread_with safe2 ?fw) = Inr (cowToken_of pr2, cowDao_of pr2)"
    by (auto simp: dummySettings_other_parse)
  from s1 s2 have safe: "safe2 = safe" by simp
  have handed: "dummySettings env (settings_of pr2) = dummySettings env (settings_of pr1)"
    by (rule dummySettings_same [OF same, of env, symmetric])
  from g1 g2 have "cowToken_of pr2 = cowToken_of pr1" and "cowDao_of pr2 = cowDao_of pr1"
    by (simp_all add: safe handed)
  moreover from t2 run_calls [OF r2]
  have "filter is_generateProposal
         (trace (snd (generateDeployment (env\<lparr>JSON_parse := parse2\<rparr>) args2 wb))) =
         filter is_generateProposal (trace wb) @
         [Call_generateProposal (dummySettings env (settings_of pr1))
            (spread_with safe ?fw) (spread_with safe ?fw)]"
    by (simp add: safe handed)
  moreover from t1 run_calls [OF r1]
  have "filter is_generateProposal (trace (snd (generateDeployment env args1 wa))) =
         filter is_generateProposal (trace wa) @
         [Call_generateProposal (dummySettings env (settings_of pr1))
            (spread_with safe ?fw) (spread_with safe ?fw)]"
    by simp
  moreover have "own_props (dummySettings env (settings_of pr1)) ''virtualCowToken''
      = Some (dummyVirtualTokenCreationSettings env)"
    and "own_props (dummySettings env (settings_of pr1)) ''multiTokenMediatorGnosisChain''
      = Some (JStr AddressZero)"
    and "\<forall>k. k \<noteq> ''virtualCowToken'' \<and> k \<noteq> ''multiTokenMediatorGnosisChain''
            \<longrightarrow> own_props (dummySettings env (settings_of pr1)) k
                = own_props (settings_of pr1) k"
    by (simp_all add: dummySettings_members)
  ultimately show ?thesis using g1 by blast
qed

text \<open>
  Two runs in the concrete environment whose settings documents differ in the price under
  \<^verbatim>\<open>virtualCowToken\<close> and in having a member \<^verbatim>\<open>multiTokenMediatorGnosisChain\<close>: the calls of
  \<^verbatim>\<open>generateProposal\<close> they record are the same.
\<close>

theorem predicted_addresses_ignore_two_members_witness:
  "prop_or_undefined (sample_settings (obj []) (obj []) sample_bridge) ''virtualCowToken''
     \<noteq> prop_or_undefined
         (obj [(''cowToken'', obj []), (''cowDao'', obj []), (''bridge'', sample_bridge),
               (''virtualCowToken'', obj [(''gnoPrice'', JStr ''2000'')]),
               (''multiTokenMediatorGnosisChain'', JStr ''0x4D9'')]) ''virtualCowToken''
   \<and> filter is_generateProposal
        (trace (snd (generateDeployment
           (sample_env (sample_settings (obj []) (obj []) sample_bridge))
           sample_args sample_world)))
     = filter is_generateProposal
        (trace (snd (generateDeployment
           (sample_env
             (obj [(''cowToken'', obj []), (''cowDao'', obj []), (''bridge'', sample_bridge),
                   (''virtualCowToken'', obj [(''gnoPrice'', JStr ''2000'')]),
                   (''multiTokenMediatorGnosisChain'', JStr ''0x4D9'')]))
           sample_args sample_world)))"
proof -
  let ?d1 = "sample_settings (obj []) (obj []) sample_bridge"
  let ?d2 = "obj [(''cowToken'', obj []), (''cowDao'', obj []), (''bridge'', sample_bridge),
                  (''virtualCowToken'', obj [(''gnoPrice'', JStr ''2000'')]),
                  (''multiTokenMediatorGnosisChain'', JStr ''0x4D9'')]"
  have env2: "sample_env ?d2 = (sample_env ?d1)\<lparr>JSON_parse := \<lambda>text. Inr ?d2\<rparr>"
    by (simp add: sample_env_def)
  have r1: "prepare (sample_env ?d1) sample_args sample_world =
      (Inr (sample_prepared ?d1), snd (prepare (sample_env ?d1) sample_args sample_world))"
    by (simp add: sample_prepare)
  have r2: "prepare ((sample_env ?d1)\<lparr>JSON_parse := \<lambda>text. Inr ?d2\<rparr>) sample_args sample_world =
      (Inr (sample_prepared ?d2), snd (prepare (sample_env ?d2) sample_args sample_world))"
    unfolding env2 [symmetric] by (simp add: sample_prepare)
  have same: "\<forall>k. k \<noteq> ''virtualCowToken'' \<and> k \<noteq> ''multiTokenMediatorGnosisChain''
      \<longrightarrow> own_props (settings_of (sample_prepared ?d1)) k
          = own_props (settings_of (sample_prepared ?d2)) k"
    by (simp add: sample_prepared_def sample_defs)
  have differ: "prop_or_undefined ?d1 ''virtualCowToken''
      \<noteq> prop_or_undefined ?d2 ''virtualCowToken''"
    by (simp add: prop_or_undefined_def sample_defs fun_eq_iff)
  from predicted_addresses_ignore_two_members [OF r1 r2 same]
  obtain handed addresses addressesGC
    where t1: "filter is_generateProposal
          (trace (snd (generateDeployment (sample_env ?d1) sample_args sample_world)))
        = filter is_generateProposal (trace sample_world)
          @ [Call_generateProposal handed addresses addressesGC]"
      and t2: "filter is_generateProposal
          (trace (snd (generateDeployment
             ((sample_env ?d1)\<lparr>JSON_parse := \<lambda>text. Inr ?d2\<rparr>) sample_args sample_world)))
        = filter is_generateProposal (trace sample_world)
          @ [Call_generateProposal handed addresses addressesGC]"
    by (elim exE conjE)
  have "filter is_generateProposal
          (trace (snd (generateDeployment (sample_env ?d1) sample_args sample_world)))
      = filter is_generateProposal
          (trace (snd (generateDeployment (sample_env ?d2) sample_args sample_world)))"
    unfolding env2 by (simp only: t1 t2)
  with differ show ?thesis by (rule conjI)
qed

lemma sample_run_calls:
  "filter is_generateProposal
     (trace (snd (generateDeployment
        (sample_env (sample_settings (obj []) (obj [])
           (obj [(''multiTokenMediatorGnosisChain'', JStr m)])))
        sample_args sample_world))) =
   [Call_generateProposal
      (dummySettings
         (sample_env (sample_settings (obj []) (obj [])
            (obj [(''multiTokenMediatorGnosisChain'', JStr m)])))
         (sample_settings (obj []) (obj [])
            (obj [(''multiTokenMediatorGnosisChain'', JStr m)])))
      (spread_with (obj []) [(''forwarder'', JStr AddressZero)])
      (spread_with (obj []) [(''forwarder'', JStr AddressZero)])]"
proof -
  let ?doc = "sample_settings (obj []) (obj [])
      (obj [(''multiTokenMediatorGnosisChain'', JStr m)])"
  have tok: "expected_absent (settings_of (sample_prepared ?doc)) ''cowToken''"
    and dao: "expected_absent (settings_of (sample_prepared ?doc)) ''cowDao''"
    by (simp_all add: expected_absent_def expectedAddress_def get_prop_def sample_prepared_def
        sample_defs)
  note run = run_after_checks [OF sample_prepare disjI1 [OF tok] disjI1 [OF dao]]
  have params: "lift (deploymentHelperParameters (sample_env ?doc) (sample_prepared ?doc)) =
      lift (Inr \<lparr>foreignToken = ''0xAAAA'',
          multiTokenMediatorGnosisChain = JStr m,
          merkleRoot = sample_leaf ''0xC1'',
          communityFundsTarget = ''0xBBBB'',
          gnoToken = JStr ''0x6E0'',
          gnoPrice = JStr ''1000'',
          nativeTokenPrice = 150000000000000000,
          wrappedNativeToken = JStr ''0xE91''\<rparr>)"
    by (simp add: deploymentHelperParameters_eq missing_def prop_or_undefined_def
        table_entry_def sample_prepared_def sample_defs)
  from tok dao show ?thesis
    unfolding run assemble_deploy_save_def params
    by (simp add: deploy_contract_def save_output_def run_defs Let_def warnings_def
        sample_proposal_call_def sample_env_def sample_world_def sample_prepared_def)
qed

text \<open>
  Two runs in the concrete environment whose settings documents differ only in
  \<^verbatim>\<open>bridge.multiTokenMediatorGnosisChain\<close>, the mediator address that the parameters are
  assembled from. Each calls \<^verbatim>\<open>generateProposal\<close> once, and the settings handed over
  differ: their \<^verbatim>\<open>bridge\<close> sections are those of the documents.
\<close>

theorem bridge_mediator_is_passed_on:
  "filter is_generateProposal
     (trace (snd (generateDeployment
        (sample_env (sample_settings (obj []) (obj [])
           (obj [(''multiTokenMediatorGnosisChain'', JStr ''0x4D1'')])))
        sample_args sample_world))) =
   [Call_generateProposal
      (dummySettings
         (sample_env (sample_settings (obj []) (obj [])
            (obj [(''multiTokenMediatorGnosisChain'', JStr ''0x4D1'')])))
         (sample_settings (obj []) (obj [])
            (obj [(''multiTokenMediatorGnosisChain'', JStr ''0x4D1'')])))
      (spread_with (obj []) [(''forwarder'', JStr AddressZero)])
      (spread_with (obj []) [(''forwarder'', JStr AddressZero)])]
   \<and> filter is_generateProposal
     (trace (snd (generateDeployment
        (sample_env (sample_settings (obj []) (obj [])
           (obj [(''multiTokenMediatorGnosisChain'', JStr ''0x4D2'')])))
        sample_args sample_world))) =
   [Call_generateProposal
      (dummySettings
         (sample_env (sample_settings (obj []) (obj [])
            (obj [(''multiTokenMediatorGnosisChain'', JStr ''0x4D2'')])))
         (sample_settings (obj []) (obj [])
            (obj [(''multiTokenMediatorGnosisChain'', JStr ''0x4D2'')])))
      (spread_with (obj []) [(''forwarder'', JStr AddressZero)])
      (spread_with (obj []) [(''forwarder'', JStr AddressZero)])]
   \<and> prop_or_undefined
        (dummySettings
           (sample_env (sample_settings (obj []) (obj [])
              (obj [(''multiTokenMediatorGnosisChain'', JStr ''0x4D1'')])))
           (sample_settings (obj []) (obj [])
              (obj [(''multiTokenMediatorGnosisChain'', JStr ''0x4D1'')]))) ''bridge''
       = obj [(''multiTokenMediatorGnosisChain'', JStr ''0x4D1'')]
   \<and> prop_or_undefined
        (dummySettings
           (sample_env (sample_settings (obj []) (obj [])
              (obj [(''multiTokenMediatorGnosisChain'', JStr ''0x4D2'')])))
           (sample_settings (obj []) (obj [])
              (obj [(''multiTokenMediatorGnosisChain'', JStr ''0x4D2'')]))) ''bridge''
       = obj [(''multiTokenMediatorGnosisChain'', JStr ''0x4D2'')]
   \<and> dummySettings
        (sample_env (sample_settings (obj []) (obj [])
           (obj [(''multiTokenMediatorGnosisChain'', JStr ''0x4D1'')])))
        (sample_settings (obj []) (obj [])
           (obj [(''multiTokenMediatorGnosisChain'', JStr ''0x4D1'')]))
     \<noteq> dummySettings
        (sample_env (sample_settings (obj []) (obj [])
           (obj [(''multiTokenMediatorGnosisChain'', JStr ''0x4D2'')])))
        (sample_settings (obj []) (obj [])
           (obj [(''multiTokenMediatorGnosisChain'', JStr ''0x4D2'')]))"
proof -
  have members: "prop_or_undefined (dummySettings e
        (sample_settings (obj []) (obj []) (obj [(''multiTokenMediatorGnosisChain'', JStr m)])))
        ''bridge'' = obj [(''multiTokenMediatorGnosisChain'', JStr m)]" for e m
    by (simp add: prop_or_undefined_def dummySettings_members sample_settings_def obj_def)
  have differ: "dummySettings e1
        (sample_settings (obj []) (obj [])
           (obj [(''multiTokenMediatorGnosisChain'', JStr ''0x4D1'')]))
     \<noteq> dummySettings e2
        (sample_settings (obj []) (obj [])
           (obj [(''multiTokenMediatorGnosisChain'', JStr ''0x4D2'')]))" for e1 e2
  proof
    assume "dummySettings e1
        (sample_settings (obj []) (obj [])
           (obj [(''multiTokenMediatorGnosisChain'', JStr ''0x4D1'')]))
      = dummySettings e2
        (sample_settings (obj []) (obj [])
           (obj [(''multiTokenMediatorGnosisChain'', JStr ''0x4D2'')]))"
    then have "prop_or_undefined (dummySettings e1
        (sample_settings (obj []) (obj [])
           (obj [(''multiTokenMediatorGnosisChain'', JStr ''0x4D1'')]))) ''bridge''
      = prop_or_undefined (dummySettings e2
        (sample_settings (obj []) (obj [])
           (obj [(''multiTokenMediatorGnosisChain'', JStr ''0x4D2'')]))) ''bridge''"
      by simp
    then have "obj [(''multiTokenMediatorGnosisChain'', JStr ''0x4D1'')]
        = obj [(''multiTokenMediatorGnosisChain'', JStr ''0x4D2'')]"
      unfolding members .
    then have "own_props (obj [(''multiTokenMediatorGnosisChain'', JStr ''0x4D1'')])
          ''multiTokenMediatorGnosisChain''
        = own_props (obj [(''multiTokenMediatorGnosisChain'', JStr ''0x4D2'')])
          ''multiTokenMediatorGnosisChain''"
      by (rule arg_cong [where f = "\<lambda>v. own_props v ''multiTokenMediatorGnosisChain''"])
    then show False by (simp add: obj_def)
  qed
  show ?thesis
    by (intro conjI sample_run_calls members differ)
qed

section \<open>Saving the output\<close>

lemma save_output_success:
  assumes "save_output env cwp address w = (Inr u, w')"
  shows "\<exists>cleared saved.
      removeSplitClaimFiles env OUTPUT_FOLDER_GC
        (rm_tree (OUTPUT_FOLDER_GC @ ''/params.json'')
           (rm_tree (OUTPUT_FOLDER_GC @ ''/claims.json'') (files w))) = Inr cleared
    \<and> splitClaimsAndSaveToFolder env cwp OUTPUT_FOLDER_GC
        (cleared(OUTPUT_FOLDER_GC @ ''/addresses.json'' \<mapsto> JSON_stringify_string env address,
                 OUTPUT_FOLDER_GC @ ''/claims.json'' \<mapsto> JSON_stringify_claims env cwp))
        = Inr saved
    \<and> files w' = saved
    \<and> trace w' = trace w @
        [Console_log ''Clearing old files...'',
         Fs (Rm (OUTPUT_FOLDER_GC @ ''/claims.json'')),
         Fs (Rm (OUTPUT_FOLDER_GC @ ''/params.json'')),
         Call_removeSplitClaimFiles OUTPUT_FOLDER_GC,
         Console_log ''Saving generated data to file...'',
         Fs (Mkdir OUTPUT_FOLDER_GC),
         Fs (WriteFile (OUTPUT_FOLDER_GC @ ''/addresses.json'')
               (JSON_stringify_string env address)),
         Fs (WriteFile (OUTPUT_FOLDER_GC @ ''/claims.json'') (JSON_stringify_claims env cwp)),
         Call_splitClaimsAndSaveToFolder OUTPUT_FOLDER_GC]"
  using assms
  by (auto simp: save_output_def run_defs Let_def split: option.splits sum.splits)

lemma deploy_contract_success:
  assumes "deploy_contract env ps w = (Inr address, w')"
  shows "\<exists>input. constructorInput env ps = Inr input \<and> deploy env input = Inr address
     \<and> files w' = files w
     \<and> trace w' = trace w @
        [Console_log_params ''The following deployment parameters will be used'' ps,
         Call_getContractFactory ''BridgedTokenDeployer'', Call_deploy]"
  using assms
  by (auto simp: deploy_contract_def run_defs Let_def split: option.splits sum.splits)

lemma prepare_success:
  assumes "prepare env args w = (Inr pr, w1)"
  shows "\<exists>text claims.
       files w (settingsJson args) = Some text
     \<and> JSON_parse env text = Inr (settings_of pr)
     \<and> parseCsvFile env (claimCsv args) (files w) = Inr claims
     \<and> computeProofs env claims = Inr (merkleRoot_of pr, claimsWithProof_of pr)
     \<and> chainId_of pr = ''100''"
  using assms
  by (auto simp: prepare_def run_defs Let_def
      split: option.splits sum.splits list.splits if_splits prod.splits)

lemma assembled_root:
  assumes "deploymentHelperParameters env pr = Inr ps"
  shows "merkleRoot ps = merkleRoot_of pr"
  using assms by (auto simp: deploymentHelperParameters_eq split: if_splits)

text \<open>What a run that returns has done, stage by stage.\<close>

lemma generateDeployment_success:
  assumes run: "generateDeployment env args w = (Inr u, w')"
  shows "\<exists>pr w1 ps input address cleared saved.
      prepare env args w = (Inr pr, w1)
    \<and> deploymentHelperParameters env pr = Inr ps
    \<and> constructorInput env ps = Inr input
    \<and> deploy env input = Inr address
    \<and> removeSplitClaimFiles env OUTPUT_FOLDER_GC
        (rm_tree (OUTPUT_FOLDER_GC @ ''/params.json'')
           (rm_tree (OUTPUT_FOLDER_GC @ ''/claims.json'') (files w))) = Inr cleared
    \<and> splitClaimsAndSaveToFolder env (claimsWithProof_of pr) OUTPUT_FOLDER_GC
        (cleared(OUTPUT_FOLDER_GC @ ''/addresses.json'' \<mapsto> JSON_stringify_string env address,
                 OUTPUT_FOLDER_GC @ ''/claims.json'' \<mapsto>
                   JSON_stringify_claims env (claimsWithProof_of pr))) = Inr saved
    \<and> files w' = saved
    \<and> filter mutates (trace w') = filter mutates (trace w) @
        [Fs (Rm (OUTPUT_FOLDER_GC @ ''/claims.json'')),
         Fs (Rm (OUTPUT_FOLDER_GC @ ''/params.json'')),
         Call_removeSplitClaimFiles OUTPUT_FOLDER_GC,
         Fs (Mkdir OUTPUT_FOLDER_GC),
         Fs (WriteFile (OUTPUT_FOLDER_GC @ ''/addresses.json'')
               (JSON_stringify_string env address)),
         Fs (WriteFile (OUTPUT_FOLDER_GC @ ''/claims.json'')
               (JSON_stringify_claims env (claimsWithProof_of pr))),
         Call_splitClaimsAndSaveToFolder OUTPUT_FOLDER_GC]
    \<and> Console_log_params ''The following deployment parameters will be used'' ps
        \<in> set (trace w')"
proof -
  from bnd_InrD [OF run [unfolded generateDeployment_def]] obtain pr w1
    where prep: "prepare env args w = (Inr pr, w1)"
      and r1: "bnd (check_cowToken (settings_of pr) (cowToken_of pr))
                 (\<lambda>_. bnd (check_cowDao (settings_of pr) (cowDao_of pr))
                    (\<lambda>_. assemble_deploy_save env pr)) w1 = (Inr u, w')"
    by blast
  from bnd_InrD [OF r1] obtain u2 w2
    where c1: "check_cowToken (settings_of pr) (cowToken_of pr) w1 = (Inr u2, w2)"
      and r2: "bnd (check_cowDao (settings_of pr) (cowDao_of pr))
                 (\<lambda>_. assemble_deploy_save env pr) w2 = (Inr u, w')"
    by blast
  from bnd_InrD [OF r2] obtain u3 w3
    where c2: "check_cowDao (settings_of pr) (cowDao_of pr) w2 = (Inr u3, w3)"
      and r3: "assemble_deploy_save env pr w3 = (Inr u, w')"
    by blast
  from bnd_InrD [OF r3 [unfolded assemble_deploy_save_def]] obtain ps w3'
    where a0: "lift (deploymentHelperParameters env pr) w3 = (Inr ps, w3')"
      and r4: "bnd (deploy_contract env ps)
                 (\<lambda>address. save_output env (claimsWithProof_of pr) address) w3'
               = (Inr u, w')"
    by blast
  from a0 have ps: "deploymentHelperParameters env pr = Inr ps" and w3': "w3' = w3"
    by (simp_all add: lift_def)
  from bnd_InrD [OF r4] obtain address w4
    where d: "deploy_contract env ps w3' = (Inr address, w4)"
      and s: "save_output env (claimsWithProof_of pr) address w4 = (Inr u, w')"
    by blast
  from deploy_contract_success [OF d] obtain input
    where inp: "constructorInput env ps = Inr input" and dep: "deploy env input = Inr address"
      and tr4: "trace w4 = trace w3' @
        [Console_log_params ''The following deployment parameters will be used'' ps,
         Call_getContractFactory ''BridgedTokenDeployer'', Call_deploy]"
    by blast
  have q: "files w4 = files w \<and> filter mutates (trace w4) = filter mutates (trace w)"
    using quietD [OF quiet_prepare prep] quietD [OF quiet_check_cowToken c1]
      quietD [OF quiet_check_cowDao c2] quietD [OF quiet_deploy_contract d] w3'
    by simp
  from save_output_success [OF s] q obtain cleared saved
    where "removeSplitClaimFiles env OUTPUT_FOLDER_GC
        (rm_tree (OUTPUT_FOLDER_GC @ ''/params.json'')
           (rm_tree (OUTPUT_FOLDER_GC @ ''/claims.json'') (files w))) = Inr cleared"
      and "splitClaimsAndSaveToFolder env (claimsWithProof_of pr) OUTPUT_FOLDER_GC
        (cleared(OUTPUT_FOLDER_GC @ ''/addresses.json'' \<mapsto> JSON_stringify_string env address,
                 OUTPUT_FOLDER_GC @ ''/claims.json'' \<mapsto>
                   JSON_stringify_claims env (claimsWithProof_of pr))) = Inr saved"
      and "files w' = saved"
      and tr: "trace w' = trace w4 @
        [Console_log ''Clearing old files...'',
         Fs (Rm (OUTPUT_FOLDER_GC @ ''/claims.json'')),
         Fs (Rm (OUTPUT_FOLDER_GC @ ''/params.json'')),
         Call_removeSplitClaimFiles OUTPUT_FOLDER_GC,
         Console_log ''Saving generated data to file...'',
         Fs (Mkdir OUTPUT_FOLDER_GC),
         Fs (WriteFile (OUTPUT_FOLDER_GC @ ''/addresses.json'')
               (JSON_stringify_string env address)),
         Fs (WriteFile (OUTPUT_FOLDER_GC @ ''/claims.json'')
               (JSON_stringify_claims env (claimsWithProof_of pr))),
         Call_splitClaimsAndSaveToFolder OUTPUT_FOLDER_GC]"
    by auto
  moreover from tr q have "filter mutates (trace w') = filter mutates (trace w) @
        [Fs (Rm (OUTPUT_FOLDER_GC @ ''/claims.json'')),
         Fs (Rm (OUTPUT_FOLDER_GC @ ''/params.json'')),
         Call_removeSplitClaimFiles OUTPUT_FOLDER_GC,
         Fs (Mkdir OUTPUT_FOLDER_GC),
         Fs (WriteFile (OUTPUT_FOLDER_GC @ ''/addresses.json'')
               (JSON_stringify_string env address)),
         Fs (WriteFile (OUTPUT_FOLDER_GC @ ''/claims.json'')
               (JSON_stringify_claims env (claimsWithProof_of pr))),
         Call_splitClaimsAndSaveToFolder OUTPUT_FOLDER_GC]"
    by simp
  moreover from tr tr4
  have "Console_log_params ''The following deployment parameters will be used'' ps
      \<in> set (trace w')"
    by simp
  ultimately show ?thesis using prep ps inp dep by blast
qed

text \<open>The run in the concrete environment with no expected address in the settings.\<close>

lemma sample_run:
  "generateDeployment (sample_env (sample_settings (obj []) (obj []) sample_bridge))
      sample_args sample_world =
   save_output (sample_env (sample_settings (obj []) (obj []) sample_bridge))
      [(''0xC1'', [])] ''0xDE9''
      (sample_world\<lparr>trace :=
          [Call_getSigners, Call_getNetwork, Fs (ReadFile ''settings.json''),
           Console_log ''Using deployer 0xD1'',
           Console_log ''Reading user claims for gnosis chain from file...'',
           Call_parseCsvFile ''claims.csv'',
           Console_log ''Generating Merkle proofs...'',
           sample_proposal_call (sample_settings (obj []) (obj []) sample_bridge),
           Console_warn ''settings.cowToken.expectedAddress was not defined'',
           Console_warn ''settings.cowDao.expectedAddress was not defined'',
           Console_log_params ''The following deployment parameters will be used''
             \<lparr>foreignToken = ''0xAAAA'',
              multiTokenMediatorGnosisChain = JStr ''0x4D1'',
              merkleRoot = sample_leaf ''0xC1'',
              communityFundsTarget = ''0xBBBB'',
              gnoToken = JStr ''0x6E0'',
              gnoPrice = JStr ''1000'',
              nativeTokenPrice = 150000000000000000,
              wrappedNativeToken = JStr ''0xE91''\<rparr>,
           Call_getContractFactory ''BridgedTokenDeployer'',
           Call_deploy]\<rparr>)"
proof -
  let ?doc = "sample_settings (obj []) (obj []) sample_bridge"
  have tok: "check_cowToken ?doc ''0xAAAA'' =
      emit (Console_warn ''settings.cowToken.expectedAddress was not defined'')"
    and dao: "check_cowDao ?doc ''0xBBBB'' =
      emit (Console_warn ''settings.cowDao.expectedAddress was not defined'')"
    by (simp_all add: check_cowToken_def check_cowDao_def bnd_def lift_def get_prop_def
        sample_defs fun_eq_iff)
  have pr: "settings_of (sample_prepared ?doc) = ?doc"
    "cowToken_of (sample_prepared ?doc) = ''0xAAAA''"
    "cowDao_of (sample_prepared ?doc) = ''0xBBBB''"
    "claimsWithProof_of (sample_prepared ?doc) = [(''0xC1'', [])]"
    by (simp_all add: sample_prepared_def)
  have dep: "deploy_contract (sample_env ?doc) ps w =
     (Inr ''0xDE9'', w\<lparr>trace := trace w @
        [Console_log_params ''The following deployment parameters will be used'' ps,
         Call_getContractFactory ''BridgedTokenDeployer'', Call_deploy]\<rparr>)" for ps w
    by (simp add: deploy_contract_def run_defs sample_env_def)
  show ?thesis
    by (simp add: generateDeployment_def assemble_deploy_save_def bnd_def sample_prepare pr
        tok dao emit_def lift_def sample_parameters dep)
qed

lemma sample_save_output:
  "fst (save_output (sample_env d) cwp address w) = Inr ()"
  by (simp add: save_output_def run_defs Let_def sample_env_def)

lemma sample_run_returns:
  "generateDeployment (sample_env (sample_settings (obj []) (obj []) sample_bridge))
      sample_args sample_world =
   (Inr (), snd (generateDeployment
      (sample_env (sample_settings (obj []) (obj []) sample_bridge)) sample_args sample_world))"
  by (rule prod_eqI) (simp_all add: sample_run sample_save_output)

text \<open>
  C4. A run that returns has, as its only removals and writes and in this order: removed
  the full claim file \<^verbatim>\<open>claims.json\<close>, removed \<^verbatim>\<open>params.json\<close>, called
  \<^verbatim>\<open>removeSplitClaimFiles\<close> on the output folder, made the folder, written the address of
  the deployed contract to \<^verbatim>\<open>addresses.json\<close>, written the list of claims with their
  proofs to \<^verbatim>\<open>claims.json\<close>, and called \<^verbatim>\<open>splitClaimsAndSaveToFolder\<close>. Each write
  replaces the whole file: the files at the end are those the shard helper returns for
  the cleared files with the two paths set to the new contents.
\<close>

theorem clears_then_writes_in_order:
  assumes "generateDeployment env args w = (Inr u, w')"
  shows "\<exists>pr w1 ps input address cleared saved.
      prepare env args w = (Inr pr, w1)
    \<and> deploymentHelperParameters env pr = Inr ps
    \<and> constructorInput env ps = Inr input
    \<and> deploy env input = Inr address
    \<and> filter mutates (trace w') = filter mutates (trace w) @
        [Fs (Rm (OUTPUT_FOLDER_GC @ ''/claims.json'')),
         Fs (Rm (OUTPUT_FOLDER_GC @ ''/params.json'')),
         Call_removeSplitClaimFiles OUTPUT_FOLDER_GC,
         Fs (Mkdir OUTPUT_FOLDER_GC),
         Fs (WriteFile (OUTPUT_FOLDER_GC @ ''/addresses.json'')
               (JSON_stringify_string env address)),
         Fs (WriteFile (OUTPUT_FOLDER_GC @ ''/claims.json'')
               (JSON_stringify_claims env (claimsWithProof_of pr))),
         Call_splitClaimsAndSaveToFolder OUTPUT_FOLDER_GC]
    \<and> removeSplitClaimFiles env OUTPUT_FOLDER_GC
        (rm_tree (OUTPUT_FOLDER_GC @ ''/params.json'')
           (rm_tree (OUTPUT_FOLDER_GC @ ''/claims.json'') (files w))) = Inr cleared
    \<and> splitClaimsAndSaveToFolder env (claimsWithProof_of pr) OUTPUT_FOLDER_GC
        (cleared(OUTPUT_FOLDER_GC @ ''/addresses.json'' \<mapsto> JSON_stringify_string env address,
                 OUTPUT_FOLDER_GC @ ''/claims.json'' \<mapsto>
                   JSON_stringify_claims env (claimsWithProof_of pr))) = Inr saved
    \<and> files w' = saved"
  using generateDeployment_success [OF assms] by blast

theorem clears_then_writes_in_order_witness:
  "filter mutates (trace (snd (generateDeployment
      (sample_env (sample_settings (obj []) (obj []) sample_bridge))
      sample_args sample_world))) =
     [Fs (Rm ''./output/deployment-gc/claims.json''),
      Fs (Rm ''./output/deployment-gc/params.json''),
      Call_removeSplitClaimFiles ''./output/deployment-gc'',
      Fs (Mkdir ''./output/deployment-gc''),
      Fs (WriteFile ''./output/deployment-gc/addresses.json'' (CHR 0x22 # ''0xDE9'' @ [CHR 0x22])),
      Fs (WriteFile ''./output/deployment-gc/claims.json'' ''0xC1''),
      Call_splitClaimsAndSaveToFolder ''./output/deployment-gc'']"
proof -
  let ?env = "sample_env (sample_settings (obj []) (obj []) sample_bridge)"
  from clears_then_writes_in_order [OF sample_run_returns]
  obtain pr w1 ps input address
    where prep: "prepare ?env sample_args sample_world = (Inr pr, w1)"
      and dep: "deploy ?env input = Inr address"
      and tr: "filter mutates (trace (snd (generateDeployment ?env sample_args sample_world))) =
        filter mutates (trace sample_world) @
        [Fs (Rm (OUTPUT_FOLDER_GC @ ''/claims.json'')),
         Fs (Rm (OUTPUT_FOLDER_GC @ ''/params.json'')),
         Call_removeSplitClaimFiles OUTPUT_FOLDER_GC,
         Fs (Mkdir OUTPUT_FOLDER_GC),
         Fs (WriteFile (OUTPUT_FOLDER_GC @ ''/addresses.json'')
               (JSON_stringify_string ?env address)),
         Fs (WriteFile (OUTPUT_FOLDER_GC @ ''/claims.json'')
               (JSON_stringify_claims ?env (claimsWithProof_of pr))),
         Call_splitClaimsAndSaveToFolder OUTPUT_FOLDER_GC]"
    by blast
  from prep have "pr = sample_prepared (sample_settings (obj []) (obj []) sample_bridge)"
    by (simp add: sample_prepare)
  moreover from dep have "address = ''0xDE9''"
    by (simp add: sample_env_def)
  ultimately show ?thesis
    using tr by (simp add: sample_prepared_def sample_env_def sample_world_def OUTPUT_FOLDER_GC_def)
qed

text \<open>
  C3, as the code has it. A run that returns has printed the assembled parameters and
  deployed the contract with them, and the \<^verbatim>\<open>merkleRoot\<close> among them is the root that
  \<^verbatim>\<open>computeProofs\<close> returned for the claims read. It has removed \<^verbatim>\<open>params.json\<close> and has
  written no parameters file: no write to \<^verbatim>\<open>params.json\<close> is recorded that was not
  recorded before the run.
\<close>

theorem parameters_printed_not_saved:
  assumes "generateDeployment env args w = (Inr u, w')"
  shows "\<exists>ps claims cwp input address.
      parseCsvFile env (claimCsv args) (files w) = Inr claims
    \<and> computeProofs env claims = Inr (merkleRoot ps, cwp)
    \<and> Console_log_params ''The following deployment parameters will be used'' ps
        \<in> set (trace w')
    \<and> constructorInput env ps = Inr input
    \<and> deploy env input = Inr address
    \<and> Fs (Rm (OUTPUT_FOLDER_GC @ ''/params.json'')) \<in> set (trace w')
    \<and> (\<forall>c. Fs (WriteFile (OUTPUT_FOLDER_GC @ ''/params.json'') c) \<in> set (trace w')
           \<longrightarrow> Fs (WriteFile (OUTPUT_FOLDER_GC @ ''/params.json'') c) \<in> set (trace w))"
proof -
  from generateDeployment_success [OF assms] obtain pr w1 ps input address
    where prep: "prepare env args w = (Inr pr, w1)"
      and ps: "deploymentHelperParameters env pr = Inr ps"
      and inp: "constructorInput env ps = Inr input"
      and dep: "deploy env input = Inr address"
      and tr: "filter mutates (trace w') = filter mutates (trace w) @
        [Fs (Rm (OUTPUT_FOLDER_GC @ ''/claims.json'')),
         Fs (Rm (OUTPUT_FOLDER_GC @ ''/params.json'')),
         Call_removeSplitClaimFiles OUTPUT_FOLDER_GC,
         Fs (Mkdir OUTPUT_FOLDER_GC),
         Fs (WriteFile (OUTPUT_FOLDER_GC @ ''/addresses.json'')
               (JSON_stringify_string env address)),
         Fs (WriteFile (OUTPUT_FOLDER_GC @ ''/claims.json'')
               (JSON_stringify_claims env (claimsWithProof_of pr))),
         Call_splitClaimsAndSaveToFolder OUTPUT_FOLDER_GC]"
      and log: "Console_log_params ''The following deployment parameters will be used'' ps
        \<in> set (trace w')"
    by blast
  from prepare_success [OF prep] assembled_root [OF ps] obtain claims
    where cl: "parseCsvFile env (claimCsv args) (files w) = Inr claims"
      and root: "computeProofs env claims = Inr (merkleRoot ps, claimsWithProof_of pr)"
    by auto
  have mem: "ev \<in> set (trace w') \<longleftrightarrow> ev \<in> set (filter mutates (trace w'))"
    if "mutates ev" for ev
    using that by simp
  have removed: "Fs (Rm (OUTPUT_FOLDER_GC @ ''/params.json'')) \<in> set (trace w')"
    by (subst mem) (simp_all add: tr)
  have unwritten: "Fs (WriteFile (OUTPUT_FOLDER_GC @ ''/params.json'') c) \<in> set (trace w)"
    if "Fs (WriteFile (OUTPUT_FOLDER_GC @ ''/params.json'') c) \<in> set (trace w')" for c
  proof -
    from that have "Fs (WriteFile (OUTPUT_FOLDER_GC @ ''/params.json'') c)
        \<in> set (filter mutates (trace w'))"
      by simp
    then show ?thesis by (simp add: tr)
  qed
  from cl root log inp dep removed unwritten show ?thesis by blast
qed

theorem parameters_printed_not_saved_witness:
  "\<exists>ps. Console_log_params ''The following deployment parameters will be used'' ps
        \<in> set (trace (snd (generateDeployment
             (sample_env (sample_settings (obj []) (obj []) sample_bridge))
             sample_args sample_world)))
     \<and> merkleRoot ps = sample_leaf ''0xC1''
     \<and> (\<forall>c. Fs (WriteFile ''./output/deployment-gc/params.json'' c)
           \<notin> set (trace (snd (generateDeployment
             (sample_env (sample_settings (obj []) (obj []) sample_bridge))
             sample_args sample_world))))"
proof -
  let ?env = "sample_env (sample_settings (obj []) (obj []) sample_bridge)"
  let ?w' = "snd (generateDeployment ?env sample_args sample_world)"
  from parameters_printed_not_saved [OF sample_run_returns]
  obtain ps claims cwp
    where cl: "parseCsvFile ?env (claimCsv sample_args) (files sample_world) = Inr claims"
      and root: "computeProofs ?env claims = Inr (merkleRoot ps, cwp)"
      and log: "Console_log_params ''The following deployment parameters will be used'' ps
        \<in> set (trace ?w')"
      and unwritten: "\<forall>c. Fs (WriteFile (OUTPUT_FOLDER_GC @ ''/params.json'') c) \<in> set (trace ?w')
           \<longrightarrow> Fs (WriteFile (OUTPUT_FOLDER_GC @ ''/params.json'') c) \<in> set (trace sample_world)"
    by blast
  from cl have "claims = [''0xC1'']"
    by (auto simp: sample_env_def sample_args_def sample_world_def)
  with root have "merkleRoot ps = sample_leaf ''0xC1''"
    by (simp add: sample_env_def single_claim_tree)
  moreover from unwritten
  have "\<forall>c. Fs (WriteFile ''./output/deployment-gc/params.json'' c) \<notin> set (trace ?w')"
    by (simp add: sample_world_def OUTPUT_FOLDER_GC_def)
  ultimately show ?thesis using log by blast
qed

text \<open>
  A run that returns, in a folder that held a \<^verbatim>\<open>params.json\<close>: afterwards there is no
  \<^verbatim>\<open>params.json\<close>.
\<close>

theorem no_parameters_file:
  "fst (generateDeployment (sample_env (sample_settings (obj []) (obj []) sample_bridge))
          sample_args sample_world) = Inr ()
   \<and> files sample_world ''./output/deployment-gc/params.json'' = Some ''old''
   \<and> files (snd (generateDeployment
          (sample_env (sample_settings (obj []) (obj []) sample_bridge))
          sample_args sample_world)) ''./output/deployment-gc/params.json'' = None"
  unfolding sample_run
  by (simp add: save_output_def OUTPUT_FOLDER_GC_def run_defs Let_def digits_0
      sample_env_def sample_world_def rm_tree_def)

section \<open>The messages of the two mismatch errors\<close>

lemma cowToken_message_names_both:
  assumes "check_cowToken s predicted w = (Inl (Error msg), w')"
  shows "\<exists>expected. expectedAddress s ''cowToken'' = Some (JStr expected)
     \<and> msg = ''Expected cowToken address '' @ expected
         @ '' does not coincide with calculated address '' @ predicted"
  using assms
  by (auto simp: check_cowToken_def expectedAddress_def get_prop_def bnd_def lift_def
      throw_def emit_def ret_def split: sum.splits jsval.splits if_splits)

text \<open>
  C6 fails on \<^verbatim>\<open>cowDao\<close>. With \<^verbatim>\<open>0xbbbC\<close> expected for \<^verbatim>\<open>cowDao\<close> and \<^verbatim>\<open>0xBBBB\<close> predicted, the
  run aborts with the message \<^verbatim>\<open>Expected cowDao address does not coincide with calculated
  address\<close>, in which neither of the two addresses occurs.
\<close>

theorem cowDao_mismatch_message:
  "fst (generateDeployment
          (sample_env (sample_settings (obj []) (expecting ''0xbbbC'') sample_bridge))
          sample_args sample_world) =
     Inl (Error ''Expected cowDao address does not coincide with calculated address'')
   \<and> \<not> occurs_in ''0xbbbC''
         ''Expected cowDao address does not coincide with calculated address''
   \<and> \<not> occurs_in ''0xBBBB''
         ''Expected cowDao address does not coincide with calculated address''
   \<and> occurs_in ''cowDao''
         ''Expected cowDao address does not coincide with calculated address''"
  by (simp add: generateDeployment_def bnd_def sample_prepare check_cowToken_def
      check_cowDao_def lift_def throw_def emit_def get_prop_def sample_prepared_def
      sample_settings_def expecting_def sample_bridge_def obj_def toLowerCase_def
      lower_char_def)

section \<open>The commitment tree\<close>

text \<open>
  The tree as modelled is a commitment in the sense of the specification: folding the
  proof of a leaf over its hash gives the root, for every leaf and under either policy.
\<close>

lemma recompute_append:
  "recompute H h (ps @ qs) = recompute H (recompute H h ps) qs"
  by (induction H h ps rule: recompute.induct) auto

lemma sibling_shift:
  "sibling pol (a # b # rest) (Suc (Suc j)) = sibling pol rest j"
proof (cases "odd j")
  case True
  then obtain k where "j = Suc k" by (cases j) auto
  with True show ?thesis by (simp add: sibling_def)
next
  case False
  then show ?thesis by (cases pol) (simp_all add: sibling_def)
qed

lemma sibling_step:
  "i < length level \<Longrightarrow>
   recompute H (level ! i) (sibling pol level i) = next_level pol H level ! (i div 2)"
proof (induction pol H level arbitrary: i rule: next_level.induct)
  case (1 pol H a b rest)
  show ?case
  proof (cases i)
    case 0
    then show ?thesis by (simp add: sibling_def)
  next
    case (Suc i')
    show ?thesis
    proof (cases i')
      case 0
      with Suc show ?thesis by (simp add: sibling_def)
    next
      case (Suc j)
      with \<open>i = Suc i'\<close> have i: "i = Suc (Suc j)" by simp
      with 1 have jl: "j < length rest" by simp
      from 1(1) [OF jl] show ?thesis by (simp add: i sibling_shift)
    qed
  qed
next
  case (2 pol H a)
  then show ?case by (auto simp: sibling_def split: odd_policy.splits)
next
  case (3 pol H)
  then show ?case by simp
qed

lemma proof_recomputes_root:
  "i < length level \<Longrightarrow> tree_root pol H level = Some r \<Longrightarrow>
   recompute H (level ! i) (proof_path pol H level i) = r"
proof (induction pol H level arbitrary: i rule: tree_root.induct)
  case (1 pol H)
  then show ?case by simp
next
  case (2 pol H r')
  then show ?case by (simp add: proof_path.simps)
next
  case (3 pol H a b rest)
  let ?level = "a # b # rest"
  from 3(2) have "i div 2 < length (next_level pol H ?level)"
    by (simp add: length_next_level del: next_level.simps)
  from 3(1) [OF this] 3(3)
  have "recompute H (next_level pol H ?level ! (i div 2))
          (proof_path pol H (next_level pol H ?level) (i div 2)) = r"
    by simp
  with sibling_step [OF 3(2), of H pol] show ?case
    by (subst proof_path.simps) (simp add: recompute_append del: next_level.simps)
qed


text \<open>
  C5. For an input of one claim, whichever the policy for an odd level and whatever the
  hash functions, the commitment tree has the claim's leaf hash as its root, and the
  claim's proof is empty.
\<close>

theorem single_claim_root_and_proof:
  "computeProofs_spec pol leafHash H [c] = Some (leafHash c, [(c, [])])"
  by (simp add: computeProofs_spec_def proof_path.simps)

end
